theory Spec2Isabelle
  imports Complex_Main "HOL-Library.Multiset"
begin

section \<open>JavaScript strings\<close>

text \<open>
  Strings are modelled as \<^typ>\<open>string\<close> over the ASCII repertoire. \<open>is_ws\<close> lists the
  ASCII characters that \<^verbatim>\<open>String.prototype.trim\<close> strips (tab, line feed, vertical tab,
  form feed, carriage return, space); \<open>toLowerCase\<close> and \<open>toUpperCase\<close> map the letters
  A-Z and a-z and leave every other character alone.
\<close>

definition is_ws :: "char \<Rightarrow> bool" where
  "is_ws c = (let n = (of_char c :: nat) in (9 \<le> n \<and> n \<le> 13) \<or> n = 32)"

definition trim :: "string \<Rightarrow> string" where
  "trim s = rev (dropWhile is_ws (rev (dropWhile is_ws s)))"

definition lower_char :: "char \<Rightarrow> char" where
  "lower_char c =
     (let n = (of_char c :: nat) in if 65 \<le> n \<and> n \<le> 90 then char_of (n + 32) else c)"

definition upper_char :: "char \<Rightarrow> char" where
  "upper_char c =
     (let n = (of_char c :: nat) in if 97 \<le> n \<and> n \<le> 122 then char_of (n - 32) else c)"

definition toLowerCase :: "string \<Rightarrow> string" where
  "toLowerCase s = map lower_char s"

definition toUpperCase :: "string \<Rightarrow> string" where
  "toUpperCase s = map upper_char s"

text \<open>\<^verbatim>\<open>s.startsWith(q)\<close>: the first \<open>length q\<close> characters of \<open>s\<close> are \<open>q\<close>.\<close>

fun startsWith :: "string \<Rightarrow> string \<Rightarrow> bool" where
  "startsWith s [] = True"
| "startsWith [] (c # q) = False"
| "startsWith (d # s) (c # q) = (d = c \<and> startsWith s q)"

section \<open>The protocol catalog (defillama.service.ts)\<close>

subsection \<open>Records\<close>

text \<open>
  \<^verbatim>\<open>DefiLlamaProtocol\<close> declares \<open>id\<close>, \<open>name\<close> (strings) and \<open>symbol\<close> (string or null) and
  leaves the other fields open. The fields that \<^verbatim>\<open>getProtocolsByNames\<close> and
  \<^verbatim>\<open>shapeProtocol\<close> read are listed here, prefixed \<open>p_\<close>; \<open>None\<close> stands for a field
  that is null or undefined.
\<close>

record DefiLlamaProtocol =
  p_id :: string
  p_name :: string
  p_symbol :: "string option"
  p_slug :: "string option"
  p_url :: "string option"
  p_logo :: "string option"
  p_category :: "string option"
  p_chains :: "string list option"
  p_address :: "string option"
  p_gecko_id :: "string option"
  p_cmcId :: "string option"
  p_twitter :: "string option"
  p_tvl :: "rat option"
  p_change_1h :: "rat option"
  p_change_1d :: "rat option"
  p_change_7d :: "rat option"
  p_chainTvls :: "(string \<times> rat) list option"

text \<open>The object built by \<^verbatim>\<open>shapeProtocol\<close>.\<close>

record ShapedProtocol =
  s_id :: string
  s_slug :: "string option"
  s_name :: string
  s_symbol :: "string option"
  s_url :: "string option"
  s_logo :: "string option"
  s_category :: "string option"
  s_chains :: "string list"
  s_address :: "string option"
  s_gecko_id :: "string option"
  s_cmcId :: "string option"
  s_twitter :: "string option"
  s_tvl :: "rat option"
  s_tvl_change_1h :: "rat option"
  s_tvl_change_1d :: "rat option"
  s_tvl_change_7d :: "rat option"
  s_chainTvls :: "(string \<times> rat) list option"

text \<open>One entry of the array returned by \<^verbatim>\<open>getProtocolsByNames\<close>.\<close>

record ResolutionResult =
  r_id :: string
  r_success :: bool
  r_data :: "ShapedProtocol option"
  r_error :: "string option"

subsection \<open>shapeProtocol\<close>

text \<open>\<^verbatim>\<open>Array.from(new Set(xs))\<close>: duplicates dropped, first occurrences kept in order.\<close>

fun set_to_array :: "'a list \<Rightarrow> 'a list \<Rightarrow> 'a list" where
  "set_to_array seen [] = seen"
| "set_to_array seen (x # xs) =
     (if x \<in> set seen then set_to_array seen xs else set_to_array (seen @ [x]) xs)"

definition shapeProtocol :: "DefiLlamaProtocol \<Rightarrow> ShapedProtocol" where
  "shapeProtocol p =
     (let supported_chains = (case p_chains p of Some cs \<Rightarrow> set_to_array [] cs | None \<Rightarrow> [])
      in \<lparr> s_id = p_id p,
           s_slug = p_slug p,
           s_name = p_name p,
           s_symbol = p_symbol p,
           s_url = p_url p,
           s_logo = p_logo p,
           s_category = p_category p,
           s_chains = supported_chains,
           s_address = p_address p,
           s_gecko_id = p_gecko_id p,
           s_cmcId = p_cmcId p,
           s_twitter = p_twitter p,
           s_tvl = p_tvl p,
           s_tvl_change_1h = p_change_1h p,
           s_tvl_change_1d = p_change_1d p,
           s_tvl_change_7d = p_change_7d p,
           s_chainTvls = p_chainTvls p \<rparr>)"

subsection \<open>The five matching passes of getProtocolsByNames\<close>

text \<open>
  Each pass of the source is a loop \<^verbatim>\<open>for (const p of this.cache) { if (cond) { picked = p; break; } }\<close>,
  that is \<^const>\<open>find\<close> with the pass's condition. The conditions, in source order
  (lines 53 to 57); \<open>q\<close> is the lowercased query:
\<close>

definition slug_lower :: "DefiLlamaProtocol \<Rightarrow> string" where
  "slug_lower p = (case p_slug p of None \<Rightarrow> [] | Some s \<Rightarrow> if s = [] then [] else toLowerCase s)"

definition name_exact :: "string \<Rightarrow> DefiLlamaProtocol \<Rightarrow> bool" where
  "name_exact q p = (toLowerCase (p_name p) = q)"

definition symbol_exact :: "string \<Rightarrow> DefiLlamaProtocol \<Rightarrow> bool" where
  "symbol_exact q p =
     (let s = toLowerCase (case p_symbol p of None \<Rightarrow> [] | Some y \<Rightarrow> y) in s \<noteq> [] \<and> s = q)"

definition slug_exact :: "string \<Rightarrow> DefiLlamaProtocol \<Rightarrow> bool" where
  "slug_exact q p = (let slug = slug_lower p in slug \<noteq> [] \<and> slug = q)"

definition name_prefix :: "string \<Rightarrow> DefiLlamaProtocol \<Rightarrow> bool" where
  "name_prefix q p = startsWith (toLowerCase (p_name p)) q"

definition slug_prefix :: "string \<Rightarrow> DefiLlamaProtocol \<Rightarrow> bool" where
  "slug_prefix q p = startsWith (slug_lower p) q"

text \<open>\<open>picked\<close> after the five passes; a pass runs only while \<open>picked\<close> is still null.\<close>

definition find_picked :: "DefiLlamaProtocol list \<Rightarrow> string \<Rightarrow> DefiLlamaProtocol option" where
  "find_picked cache q =
     (case find (name_exact q) cache of Some p \<Rightarrow> Some p | None \<Rightarrow>
      (case find (symbol_exact q) cache of Some p \<Rightarrow> Some p | None \<Rightarrow>
       (case find (slug_exact q) cache of Some p \<Rightarrow> Some p | None \<Rightarrow>
        (case find (name_prefix q) cache of Some p \<Rightarrow> Some p | None \<Rightarrow>
         find (slug_prefix q) cache))))"

text \<open>
  The body of the loop over \<open>inputs\<close> (lines 43 to 63), returning the entry it pushes.
  \<open>names\<close> is a \<^verbatim>\<open>string[]\<close>, on which \<^verbatim>\<open>raw || ""\<close> is the identity.
\<close>

definition resolve_one :: "DefiLlamaProtocol list \<Rightarrow> string \<Rightarrow> ResolutionResult" where
  "resolve_one cache raw =
     (let q = trim raw in
      if q = [] then
        \<lparr> r_id = q, r_success = False, r_data = None, r_error = Some ''Empty protocol name'' \<rparr>
      else
        (let qLower = toLowerCase q in
         case find_picked cache qLower of
           Some picked \<Rightarrow>
             \<lparr> r_id = q, r_success = True, r_data = Some (shapeProtocol picked), r_error = None \<rparr>
         | None \<Rightarrow>
             \<lparr> r_id = q, r_success = False, r_data = None,
               r_error = Some (''No protocol match for: '' @ q) \<rparr>))"

text \<open>The loop itself: \<open>results\<close> grows by one \<^verbatim>\<open>push\<close> per input.\<close>

fun resolve_loop ::
  "DefiLlamaProtocol list \<Rightarrow> string list \<Rightarrow> ResolutionResult list \<Rightarrow> ResolutionResult list" where
  "resolve_loop cache [] results = results"
| "resolve_loop cache (raw # inputs) results =
     resolve_loop cache inputs (results @ [resolve_one cache raw])"


section \<open>JavaScript numbers and the TTL setting\<close>

text \<open>
  A JavaScript number is NaN, an infinity or a finite value; finite values are modelled
  by their mathematical value (rounding to a double and the sign of zero are not
  modelled).
\<close>

datatype jsnum = NaN | NegInf | Fin rat | PosInf

fun js_neg :: "jsnum \<Rightarrow> jsnum" where
  "js_neg NaN = NaN"
| "js_neg NegInf = PosInf"
| "js_neg (Fin r) = Fin (- r)"
| "js_neg PosInf = NegInf"

text \<open>\<^verbatim>\<open>a > b\<close> and \<^verbatim>\<open>a >= b\<close> on numbers: false as soon as one side is NaN.\<close>

fun js_gt :: "jsnum \<Rightarrow> jsnum \<Rightarrow> bool" where
  "js_gt NaN b = False"
| "js_gt a NaN = False"
| "js_gt NegInf b = False"
| "js_gt a NegInf = True"
| "js_gt a PosInf = False"
| "js_gt PosInf b = True"
| "js_gt (Fin x) (Fin y) = (x > y)"

definition js_ge :: "jsnum \<Rightarrow> jsnum \<Rightarrow> bool" where
  "js_ge a b = (a \<noteq> NaN \<and> b \<noteq> NaN \<and> (a = b \<or> js_gt a b))"

definition isNaN :: "jsnum \<Rightarrow> bool" where
  "isNaN a = (a = NaN)"

subsection \<open>Number(string)\<close>

text \<open>
  \<^verbatim>\<open>Number\<close> applied to a string follows the StringNumericLiteral grammar of ECMAScript:
  surrounding white space is stripped; the empty string is 0; a literal is a decimal
  literal with optional sign, fraction and exponent, \<^verbatim>\<open>Infinity\<close> with optional sign,
  or an unsigned hexadecimal, octal or binary integer; everything else is NaN.
\<close>

definition is_digit :: "char \<Rightarrow> bool" where
  "is_digit c = (let n = (of_char c :: nat) in 48 \<le> n \<and> n \<le> 57)"

definition digit_in_base :: "nat \<Rightarrow> char \<Rightarrow> nat option" where
  "digit_in_base b c =
     (let n = (of_char (lower_char c) :: nat);
          v = (if 48 \<le> n \<and> n \<le> 57 then Some (n - 48)
               else if 97 \<le> n \<and> n \<le> 102 then Some (n - 87) else None)
      in case v of None \<Rightarrow> None | Some d \<Rightarrow> if d < b then Some d else None)"

fun digits_value :: "nat \<Rightarrow> nat \<Rightarrow> string \<Rightarrow> nat option" where
  "digits_value b acc [] = Some acc"
| "digits_value b acc (c # cs) =
     (case digit_in_base b c of None \<Rightarrow> None | Some d \<Rightarrow> digits_value b (b * acc + d) cs)"

definition nonempty_digits :: "nat \<Rightarrow> string \<Rightarrow> nat option" where
  "nonempty_digits b s = (if s = [] then None else digits_value b 0 s)"

text \<open>The exponent part: absent, or \<open>e\<close>/\<open>E\<close>, an optional sign and at least one digit.\<close>

definition exponent_part :: "string \<Rightarrow> int option" where
  "exponent_part s =
     (case s of
        [] \<Rightarrow> Some 0
      | c # r \<Rightarrow>
          if c = CHR ''e'' \<or> c = CHR ''E'' then
            (case r of
               [] \<Rightarrow> None
             | d # r' \<Rightarrow>
                 if d = CHR ''+'' then map_option int (nonempty_digits 10 r')
                 else if d = CHR ''-'' then map_option (\<lambda>n. - int n) (nonempty_digits 10 r')
                 else map_option int (nonempty_digits 10 r))
          else None)"

definition scale10 :: "rat \<Rightarrow> int \<Rightarrow> rat" where
  "scale10 m e = (if 0 \<le> e then m * 10 ^ nat e else m / 10 ^ nat (- e))"

definition unsigned_decimal :: "string \<Rightarrow> jsnum" where
  "unsigned_decimal s =
     (if s = ''Infinity'' then PosInf
      else
        (let ip = takeWhile is_digit s;
             r1 = dropWhile is_digit s;
             dot = (r1 \<noteq> [] \<and> hd r1 = CHR ''.'');
             fp = (if dot then takeWhile is_digit (tl r1) else []);
             r2 = (if dot then dropWhile is_digit (tl r1) else r1)
         in if ip = [] \<and> fp = [] then NaN
            else
              (case (digits_value 10 0 ip, digits_value 10 0 fp, exponent_part r2) of
                 (Some i, Some f, Some e) \<Rightarrow>
                   Fin (scale10 (of_nat i + of_nat f / 10 ^ length fp) e)
               | _ \<Rightarrow> NaN)))"

definition non_decimal :: "string \<Rightarrow> jsnum option" where
  "non_decimal s =
     (case s of
        z # x # r \<Rightarrow>
          if z = CHR ''0'' \<and> lower_char x \<in> {CHR ''x'', CHR ''o'', CHR ''b''} then
            (let b = (if lower_char x = CHR ''x'' then 16
                      else if lower_char x = CHR ''o'' then 8 else (2::nat))
             in Some (case nonempty_digits b r of None \<Rightarrow> NaN | Some n \<Rightarrow> Fin (of_nat n)))
          else None
      | _ \<Rightarrow> None)"

definition StringToNumber :: "string \<Rightarrow> jsnum" where
  "StringToNumber s =
     (let t = trim s in
      case t of
        [] \<Rightarrow> Fin 0
      | c # r \<Rightarrow>
          (case non_decimal t of
             Some v \<Rightarrow> v
           | None \<Rightarrow>
               if c = CHR ''+'' then unsigned_decimal r
               else if c = CHR ''-'' then js_neg (unsigned_decimal r)
               else unsigned_decimal t))"

subsection \<open>Setting values\<close>

text \<open>
  \<^verbatim>\<open>runtime.getSetting\<close> returns a string, a boolean, a number, null or undefined.
  \<open>truthy\<close> is the test of \<^verbatim>\<open>if (ttlSetting)\<close>, \<open>Number\<close> the conversion of line 29.
\<close>

datatype setting = SNull | SUndefined | SBool bool | SNum jsnum | SStr string

fun truthy :: "setting \<Rightarrow> bool" where
  "truthy SNull = False"
| "truthy SUndefined = False"
| "truthy (SBool b) = b"
| "truthy (SNum n) = (n \<noteq> NaN \<and> n \<noteq> Fin 0)"
| "truthy (SStr s) = (s \<noteq> [])"

fun Number :: "setting \<Rightarrow> jsnum" where
  "Number SNull = Fin 0"
| "Number SUndefined = NaN"
| "Number (SBool b) = (if b then Fin 1 else Fin 0)"
| "Number (SNum n) = n"
| "Number (SStr s) = StringToNumber s"


section \<open>The cached index: loadIndex, ensureFresh, initialize\<close>

subsection \<open>The service object and its surroundings\<close>

text \<open>The three private fields of \<^verbatim>\<open>DefiLlamaService\<close> and their initial values.\<close>

record service =
  cache :: "DefiLlamaProtocol list"
  cacheTimestampMs :: int
  ttlMs :: jsnum

definition new_service :: service where
  "new_service = \<lparr> cache = [], cacheTimestampMs = 0, ttlMs = Fin 300000 \<rparr>"

text \<open>
  What one \<^verbatim>\<open>fetch\<close> of the catalog can give: the promise rejects (network error, or the
  abort fired by the 15000 ms timer), or a response arrives with its \<open>ok\<close> flag, status
  and status text, whose body either fails to parse, parses to an array of protocols,
  or parses to something that is not an array.
\<close>

datatype body = BadJson string | JsonArray "DefiLlamaProtocol list" | JsonOther

datatype fetch_reply = Rejected string | Response bool nat string body

text \<open>What the \<^verbatim>\<open>catch\<close> clause of \<open>loadIndex\<close> can receive.\<close>

datatype fetch_error = FetchRejected string | Failed nat string | JsonRejected string

text \<open>The four \<^verbatim>\<open>logger\<close> calls of \<open>loadIndex\<close>.\<close>

datatype log_entry =
    Debug_loading nat
  | Info_loaded nat jsnum
  | Warn_retrying nat fetch_error nat
  | Error_gave_up fetch_error

text \<open>
  The world outside the service: the clock read by \<^verbatim>\<open>Date.now()\<close>, the number of
  requests sent and of \<^verbatim>\<open>Math.random()\<close> draws made so far, and the log. The network is
  a function \<open>net\<close> from the number of a request to the time it takes and its reply;
  the random source is a function \<open>rnd\<close> from the number of a draw to a natural number,
  of which \<^verbatim>\<open>Math.floor(Math.random() * 200)\<close> is the remainder modulo 200.
\<close>

record world =
  now :: int
  requests :: nat
  draws :: nat
  logs :: "log_entry list"

type_synonym network = "nat \<Rightarrow> nat \<times> fetch_reply"

definition logger :: "log_entry \<Rightarrow> world \<Rightarrow> world" where
  "logger e w = w\<lparr> logs := logs w @ [e] \<rparr>"

definition maxAttempts :: nat where
  "maxAttempts = 5"

definition baseDelayMs :: nat where
  "baseDelayMs = 500"

text \<open>
  Lines 85 to 89, the part of the \<^verbatim>\<open>try\<close> block that can throw: the value is the list
  assigned to \<open>this.cache\<close>, or the exception that reaches the \<^verbatim>\<open>catch\<close> clause.
\<close>

fun fetch_list :: "fetch_reply \<Rightarrow> fetch_error + DefiLlamaProtocol list" where
  "fetch_list (Rejected msg) = Inl (FetchRejected msg)"
| "fetch_list (Response ok status statusText b) =
     (if \<not> ok then Inl (Failed status statusText)
      else case b of
             BadJson msg \<Rightarrow> Inl (JsonRejected msg)
           | JsonArray list \<Rightarrow> Inr list
           | JsonOther \<Rightarrow> Inr [])"

text \<open>
  The loop of \<open>loadIndex\<close> from a given value of \<open>attempt\<close>. A result \<open>Inr\<close> is a normal
  return with the new world and service, \<open>Inl\<close> an exception leaving \<open>loadIndex\<close>.
\<close>

function load_from ::
  "network \<Rightarrow> (nat \<Rightarrow> nat) \<Rightarrow> nat \<Rightarrow> world \<times> service \<Rightarrow> fetch_error + world \<times> service" where
  "load_from net rnd attempt (w, s) =
     (if attempt \<le> maxAttempts then
        (let w1 = logger (Debug_loading attempt) w;
             (elapsed, reply) = net (requests w1);
             w2 = w1\<lparr> requests := requests w1 + 1, now := now w1 + int elapsed \<rparr>
         in case fetch_list reply of
              Inr list \<Rightarrow>
                (let s' = s\<lparr> cache := list, cacheTimestampMs := now w2 \<rparr>
                 in Inr (logger (Info_loaded (length (cache s')) (ttlMs s')) w2, s'))
            | Inl e \<Rightarrow>
                (let isLast = (attempt = maxAttempts) in
                 if isLast then Inr (logger (Error_gave_up e) w2, s)
                 else
                   (let backoff = baseDelayMs * 2 ^ (attempt - 1) + rnd (draws w2) mod 200;
                        w3 = logger (Warn_retrying attempt e backoff) (w2\<lparr> draws := draws w2 + 1 \<rparr>);
                        w4 = w3\<lparr> now := now w3 + int backoff \<rparr>
                    in load_from net rnd (attempt + 1) (w4, s))))
      else Inr (w, s))"
  by pat_completeness auto
termination
  by (relation "measure (\<lambda>(net, rnd, attempt, ws). Suc maxAttempts - attempt)") auto

declare load_from.simps [simp del]

definition loadIndex ::
  "network \<Rightarrow> (nat \<Rightarrow> nat) \<Rightarrow> world \<times> service \<Rightarrow> fetch_error + world \<times> service" where
  "loadIndex net rnd ws = load_from net rnd 1 ws"

text \<open>The staleness test of \<open>ensureFresh\<close> (line 71).\<close>

definition stale :: "world \<Rightarrow> service \<Rightarrow> bool" where
  "stale w s =
     (length (cache s) = 0 \<or> js_gt (Fin (of_int (now w - cacheTimestampMs s))) (ttlMs s))"

definition ensureFresh ::
  "network \<Rightarrow> (nat \<Rightarrow> nat) \<Rightarrow> world \<times> service \<Rightarrow> fetch_error + world \<times> service" where
  "ensureFresh net rnd ws =
     (case ws of (w, s) \<Rightarrow> if stale w s then loadIndex net rnd (w, s) else Inr (w, s))"

text \<open>Lines 27 to 31 of \<open>initialize\<close>: the effect of the setting on \<open>ttlMs\<close>.\<close>

definition apply_ttl_setting :: "setting \<Rightarrow> service \<Rightarrow> service" where
  "apply_ttl_setting ttlSetting s =
     (if truthy ttlSetting then
        (let parsed = Number ttlSetting in
         if \<not> isNaN parsed \<and> js_ge parsed (Fin 0) then s\<lparr> ttlMs := parsed \<rparr> else s)
      else s)"

definition initialize ::
  "network \<Rightarrow> (nat \<Rightarrow> nat) \<Rightarrow> setting \<Rightarrow> world \<times> service \<Rightarrow> fetch_error + world \<times> service" where
  "initialize net rnd ttlSetting ws =
     (case ws of (w, s) \<Rightarrow> loadIndex net rnd (w, apply_ttl_setting ttlSetting s))"

definition start ::
  "network \<Rightarrow> (nat \<Rightarrow> nat) \<Rightarrow> setting \<Rightarrow> world \<Rightarrow> fetch_error + world \<times> service" where
  "start net rnd ttlSetting w = initialize net rnd ttlSetting (w, new_service)"

text \<open>
  \<open>getProtocolsByNames\<close>: the freshness check, awaited first, then the loop over the
  inputs against the cache as the check left it. \<open>names\<close> is a \<^verbatim>\<open>string[]\<close>, on which
  \<^verbatim>\<open>Array.isArray(names) ? names : []\<close> is the identity.
\<close>

definition getProtocolsByNames ::
  "network \<Rightarrow> (nat \<Rightarrow> nat) \<Rightarrow> string list \<Rightarrow> world \<times> service
     \<Rightarrow> fetch_error + (world \<times> service) \<times> ResolutionResult list" where
  "getProtocolsByNames net rnd names ws =
     (case ensureFresh net rnd ws of
        Inl e \<Rightarrow> Inl e
      | Inr (w', s') \<Rightarrow> Inr ((w', s'), resolve_loop (cache s') names []))"

text \<open>The attempt numbers announced in a stretch of the log, in order.\<close>

fun attempt_of :: "log_entry \<Rightarrow> nat option" where
  "attempt_of (Debug_loading n) = Some n"
| "attempt_of e = None"

definition attempts_logged :: "log_entry list \<Rightarrow> nat list" where
  "attempts_logged es = List.map_filter attempt_of es"

subsection \<open>The matching order as the specification words it\<close>

text \<open>
  The specification lists five tiers in priority order: exact name, exact symbol,
  exact slug, name prefix, slug prefix. \<open>tiers\<close> is that list; the theorems below
  relate it to \<^const>\<open>find_picked\<close>, which follows the source.
\<close>

definition tiers :: "(string \<Rightarrow> DefiLlamaProtocol \<Rightarrow> bool) list" where
  "tiers = [name_exact, symbol_exact, slug_exact, name_prefix, slug_prefix]"

subsection \<open>Sample data\<close>

text \<open>A catalog record that has a name and nothing else, and the two-record catalog
  of the specification's examples.\<close>

definition only_name :: "string \<Rightarrow> DefiLlamaProtocol" where
  "only_name n =
     \<lparr> p_id = [], p_name = n, p_symbol = None, p_slug = None, p_url = None, p_logo = None,
       p_category = None, p_chains = None, p_address = None, p_gecko_id = None,
       p_cmcId = None, p_twitter = None, p_tvl = None, p_change_1h = None,
       p_change_1d = None, p_change_7d = None, p_chainTvls = None \<rparr>"

definition aave_catalog :: "DefiLlamaProtocol list" where
  "aave_catalog = [only_name ''Aave'', only_name ''Aave V2'']"

text \<open>A network on which every request is rejected at once, one on which every request
  is answered with the two-record catalog after 120 ms, and one that rejects the first
  two requests and answers from the third on.\<close>

definition net_down :: network where
  "net_down n = (0, Rejected ''connect ECONNREFUSED'')"

definition net_up :: network where
  "net_up n = (120, Response True 200 ''OK'' (JsonArray aave_catalog))"

definition net_flaky :: network where
  "net_flaky n = (if n < 2 then net_down n else net_up n)"

definition no_jitter :: "nat \<Rightarrow> nat" where
  "no_jitter n = 0"

definition world0 :: world where
  "world0 = \<lparr> now = 1000000, requests = 0, draws = 0, logs = [] \<rparr>"

definition loaded_at :: "int \<Rightarrow> service" where
  "loaded_at t = \<lparr> cache = aave_catalog, cacheTimestampMs = t, ttlMs = Fin 300000 \<rparr>"

section \<open>The wallet portfolio (the WALLET\_INFO action)\<close>

subsection \<open>Chains and their configuration\<close>

datatype ChainNetwork = Base | Ethereum | Polygon

record NativeToken =
  nt_symbol :: string
  nt_name :: string
  nt_coingeckoId :: string

record ChainConfig =
  cfg_name :: string
  cfg_rpcUrl :: string
  cfg_nativeToken :: NativeToken
  cfg_coingeckoPlatform :: string

fun CHAIN_CONFIGS :: "ChainNetwork \<Rightarrow> ChainConfig" where
  "CHAIN_CONFIGS Base =
     \<lparr> cfg_name = ''Base'', cfg_rpcUrl = ''BASE_RPC_URL'',
       cfg_nativeToken =
         \<lparr> nt_symbol = ''ETH'', nt_name = ''Ethereum'', nt_coingeckoId = ''ethereum'' \<rparr>,
       cfg_coingeckoPlatform = ''base'' \<rparr>"
| "CHAIN_CONFIGS Ethereum =
     \<lparr> cfg_name = ''Ethereum'', cfg_rpcUrl = ''ETHEREUM_RPC_URL'',
       cfg_nativeToken =
         \<lparr> nt_symbol = ''ETH'', nt_name = ''Ethereum'', nt_coingeckoId = ''ethereum'' \<rparr>,
       cfg_coingeckoPlatform = ''ethereum'' \<rparr>"
| "CHAIN_CONFIGS Polygon =
     \<lparr> cfg_name = ''Polygon'', cfg_rpcUrl = ''POLYGON_RPC_URL'',
       cfg_nativeToken =
         \<lparr> nt_symbol = ''MATIC'', nt_name = ''Polygon'', nt_coingeckoId = ''matic-network'' \<rparr>,
       cfg_coingeckoPlatform = ''polygon-pos'' \<rparr>"

text \<open>
  The interface \<^verbatim>\<open>TokenBalance\<close>, fields prefixed \<open>t_\<close>. Amounts and prices are
  JavaScript numbers, modelled by their mathematical value.
\<close>

record TokenBalance =
  t_symbol :: string
  t_name :: string
  t_balance :: string
  t_usdValue :: rat
  t_contractAddress :: "string option"
  t_chain :: ChainNetwork
  t_decimals :: nat

text \<open>The object returned by \<^verbatim>\<open>getTokenInfo\<close>.\<close>

record TokenInfo =
  i_symbol :: string
  i_name :: string
  i_decimals :: nat
  i_price :: rat

subsection \<open>The surroundings of the wallet action\<close>

text \<open>
  \<^verbatim>\<open>process.env\<close> is a partial map from variable names to strings; a variable is usable
  when it is set and not empty (the tests \<^verbatim>\<open>if (apiKey)\<close> and \<^verbatim>\<open>if (!rpcUrl)\<close>).
\<close>

type_synonym environment = "string \<Rightarrow> string option"

definition is_set :: "string option \<Rightarrow> bool" where
  "is_set v = (case v of None \<Rightarrow> False | Some s \<Rightarrow> s \<noteq> [])"

text \<open>
  What the pricing API can answer for a contract: the request is rejected (network
  error, or the abort of the 10000 ms timer), or a response arrives whose \<open>ok\<close> flag is
  read first and whose body then fails to parse, is \<^verbatim>\<open>null\<close>, or is an object. Of the object
  the code reads \<open>symbol\<close>, \<open>name\<close>, the \<open>decimal_place\<close> of each platform and the price
  in USD; \<open>None\<close> is a field that is missing.
\<close>

record CoinData =
  cg_symbol :: "string option"
  cg_name :: "string option"
  cg_decimal_place :: "string \<Rightarrow> nat option"
  cg_usd :: "rat option"

datatype api_body = ApiBadJson string | ApiNull | ApiData CoinData

datatype api_reply = ApiRejected string | ApiResponse bool api_body

text \<open>The three contract reads, joined by \<^verbatim>\<open>Promise.all\<close>: one rejection rejects all.\<close>

datatype onchain_reply = ReadRejected string | ReadOk string string nat

text \<open>
  The answer to \<^verbatim>\<open>alchemy_getTokenBalances\<close>. An element of \<open>tokenBalances\<close> is
  \<^verbatim>\<open>null\<close> (\<open>None\<close>: destructuring it throws) or an object with its contract address and
  its balance, where the balance is the value of \<^verbatim>\<open>BigInt(tokenBalance)\<close>, or \<open>None\<close> when
  \<^verbatim>\<open>BigInt\<close> throws on it. The field \<open>tokenBalances\<close> is missing, an array, or something
  that cannot be iterated.
\<close>

record TokenEntry =
  e_contractAddress :: string
  e_tokenBalance :: "int option"

datatype balances_field = NoBalances | Entries "TokenEntry option list" | NotIterable

datatype tokens_body = TokBadJson string | TokNull | TokJson bool balances_field

datatype tokens_reply = TokRejected string | TokResponse bool nat tokens_body

text \<open>
  The answer to \<^verbatim>\<open>eth_getBalance\<close>: \<open>result\<close> is missing (then \<^verbatim>\<open>'0'\<close> is used), is
  a text \<^verbatim>\<open>BigInt\<close> reads, or a text on which \<^verbatim>\<open>BigInt\<close> throws.
\<close>

datatype native_result = NoResult | Balance int | Garbage

datatype native_reply = NatRejected string | NatBadJson string | NatNull | NatJson native_result

text \<open>The answer to the price request for the native token.\<close>

datatype price_reply = PriceRejected string | PriceBadJson string | PriceNull | PriceUsd "rat option"

text \<open>Everything the network answers about one wallet on one chain.\<close>

record ChainReplies =
  tokens_reply :: tokens_reply
  native_reply :: native_reply
  price_reply :: price_reply
  api_reply :: "string \<Rightarrow> api_reply"
  onchain_reply :: "string \<Rightarrow> onchain_reply"

datatype exn = Exn string

subsection \<open>getTokenInfo\<close>

text \<open>\<^verbatim>\<open>x || d\<close> on an optional string and on an optional number.\<close>

definition str_or :: "string option \<Rightarrow> string \<Rightarrow> string" where
  "str_or x d = (case x of None \<Rightarrow> d | Some s \<Rightarrow> if s = [] then d else s)"

definition nat_or :: "nat option \<Rightarrow> nat \<Rightarrow> nat" where
  "nat_or x d = (case x of None \<Rightarrow> d | Some n \<Rightarrow> if n = 0 then d else n)"

definition rat_or :: "rat option \<Rightarrow> rat \<Rightarrow> rat" where
  "rat_or x d = (case x of None \<Rightarrow> d | Some r \<Rightarrow> if r = 0 then d else r)"

text \<open>
  The \<^verbatim>\<open>try\<close> block of the pricing API (lines 387 to 419): \<open>Some\<close> is the object it
  returns; \<open>None\<close> means that control goes on to the fallback, because the response was
  not \<open>ok\<close> or because an exception was caught.
\<close>

definition from_coingecko :: "ChainNetwork \<Rightarrow> api_reply \<Rightarrow> TokenInfo option" where
  "from_coingecko chain reply =
     (let platform = cfg_coingeckoPlatform (CHAIN_CONFIGS chain) in
      case reply of
        ApiRejected msg \<Rightarrow> None
      | ApiResponse ok b \<Rightarrow>
          if ok then
            (case b of
               ApiBadJson msg \<Rightarrow> None
             | ApiNull \<Rightarrow> None
             | ApiData d \<Rightarrow>
                 Some \<lparr> i_symbol = toUpperCase (str_or (cg_symbol d) []),
                        i_name = str_or (cg_name d) ''Unknown Token'',
                        i_decimals = nat_or (cg_decimal_place d platform) 18,
                        i_price = rat_or (cg_usd d) 0 \<rparr>)
          else None)"

text \<open>The fallback (lines 423 to 457): \<open>None\<close> when a contract read is rejected.\<close>

definition from_contract :: "onchain_reply \<Rightarrow> TokenInfo option" where
  "from_contract reply =
     (case reply of
        ReadRejected msg \<Rightarrow> None
      | ReadOk symbol name decimals \<Rightarrow>
          Some \<lparr> i_symbol = toUpperCase (str_or (Some symbol) ''UNKNOWN''),
                 i_name = str_or (Some name) ''Unknown Token'',
                 i_decimals = nat_or (Some decimals) 18,
                 i_price = 0 \<rparr>)"

definition getTokenInfo ::
  "environment \<Rightarrow> ChainReplies \<Rightarrow> string \<Rightarrow> ChainNetwork \<Rightarrow> TokenInfo option" where
  "getTokenInfo env net contractAddress chain =
     (let apiKey = env ''COINGECKO_API_KEY'' in
      case (if is_set apiKey then from_coingecko chain (api_reply net contractAddress) else None) of
        Some info \<Rightarrow> Some info
      | None \<Rightarrow>
          (case from_contract (onchain_reply net contractAddress) of
             Some info \<Rightarrow> Some info
           | None \<Rightarrow> None))"

subsection \<open>fetchChainBalances\<close>

text \<open>
  \<^verbatim>\<open>Number(formatUnits(value, decimals))\<close>: the value divided by \<open>10 ^ decimals\<close>.
  \<^verbatim>\<open>toFixed\<close>, which only renders amounts, is a parameter of the model.
\<close>

definition formatUnits :: "int \<Rightarrow> nat \<Rightarrow> rat" where
  "formatUnits v d = of_int v / 10 ^ d"

text \<open>
  The loop over \<open>tokenBalances\<close> (lines 548 to 571). \<open>Inl\<close> is an exception that leaves
  the loop: only destructuring a \<^verbatim>\<open>null\<close> element does, everything else is inside
  the inner \<^verbatim>\<open>try\<close>, whose \<^verbatim>\<open>catch\<close> goes on with the next token.
\<close>

fun process_tokens ::
  "environment \<Rightarrow> (nat \<Rightarrow> rat \<Rightarrow> string) \<Rightarrow> ChainReplies \<Rightarrow> ChainNetwork
     \<Rightarrow> TokenEntry option list \<Rightarrow> TokenBalance list \<Rightarrow> exn + TokenBalance list" where
  "process_tokens env toFixed net chain [] balances = Inr balances"
| "process_tokens env toFixed net chain (None # rest) balances =
     Inl (Exn ''TypeError: cannot destructure'')"
| "process_tokens env toFixed net chain (Some e # rest) balances =
     (case e_tokenBalance e of
        None \<Rightarrow> process_tokens env toFixed net chain rest balances
      | Some tokenBalance \<Rightarrow>
          if tokenBalance = 0 then process_tokens env toFixed net chain rest balances
          else
            (case getTokenInfo env net (e_contractAddress e) chain of
               Some info \<Rightarrow>
                 (let amount = formatUnits tokenBalance (i_decimals info);
                      usdValue = amount * i_price info
                  in process_tokens env toFixed net chain rest
                       (balances @
                        [\<lparr> t_symbol = i_symbol info, t_name = i_name info,
                            t_balance = toFixed 6 amount, t_usdValue = usdValue,
                            t_contractAddress = Some (e_contractAddress e), t_chain = chain,
                            t_decimals = i_decimals info \<rparr>]))
             | None \<Rightarrow> process_tokens env toFixed net chain rest balances))"

text \<open>The price of the native token (lines 521 to 535): 0 unless the lookup succeeds.\<close>

definition native_price :: "price_reply \<Rightarrow> rat" where
  "native_price reply =
     (case reply of
        PriceRejected msg \<Rightarrow> 0
      | PriceBadJson msg \<Rightarrow> 0
      | PriceNull \<Rightarrow> 0
      | PriceUsd usd \<Rightarrow> rat_or usd 0)"

text \<open>
  The outer \<^verbatim>\<open>try\<close> block (lines 474 to 573): \<open>Inr\<close> is the list it returns, \<open>Inl\<close> an
  exception that reaches the outer \<^verbatim>\<open>catch\<close>.
\<close>

definition chain_try ::
  "environment \<Rightarrow> (nat \<Rightarrow> rat \<Rightarrow> string) \<Rightarrow> ChainReplies \<Rightarrow> ChainNetwork
     \<Rightarrow> exn + TokenBalance list" where
  "chain_try env toFixed net chain =
     (let chainConfig = CHAIN_CONFIGS chain in
      case tokens_reply net of
        TokRejected msg \<Rightarrow> Inl (Exn msg)
      | TokResponse ok status b \<Rightarrow>
          if \<not> ok then Inr []
          else
            (case b of
               TokBadJson msg \<Rightarrow> Inl (Exn msg)
             | TokNull \<Rightarrow> Inl (Exn ''TypeError: tokensJson is null'')
             | TokJson err tokenBalances \<Rightarrow>
                 if err then Inr []
                 else
                   (case native_reply net of
                      NatRejected msg \<Rightarrow> Inl (Exn msg)
                    | NatBadJson msg \<Rightarrow> Inl (Exn msg)
                    | NatNull \<Rightarrow> Inl (Exn ''TypeError: nativeJson is null'')
                    | NatJson Garbage \<Rightarrow> Inl (Exn ''SyntaxError: cannot convert to BigInt'')
                    | NatJson r \<Rightarrow>
                        (let nativeBalance = (case r of Balance n \<Rightarrow> n | _ \<Rightarrow> 0);
                             balances =
                               (if nativeBalance > 0 then
                                  (let amount = formatUnits nativeBalance 18;
                                       price = native_price (price_reply net)
                                   in [\<lparr> t_symbol = nt_symbol (cfg_nativeToken chainConfig),
                                          t_name = nt_name (cfg_nativeToken chainConfig),
                                          t_balance = toFixed 6 amount,
                                          t_usdValue = amount * price,
                                          t_contractAddress = None, t_chain = chain,
                                          t_decimals = 18 \<rparr>])
                                else [])
                         in case tokenBalances of
                              NoBalances \<Rightarrow> Inr balances
                            | NotIterable \<Rightarrow> Inl (Exn ''TypeError: tokenBalances is not iterable'')
                            | Entries es \<Rightarrow> process_tokens env toFixed net chain es balances))))"

text \<open>
  \<open>fetchChainBalances\<close> for one wallet: \<open>Inr\<close> is the array the promise resolves to,
  \<open>Inl\<close> would be a rejection.
\<close>

definition fetchChainBalances ::
  "environment \<Rightarrow> (nat \<Rightarrow> rat \<Rightarrow> string) \<Rightarrow> (ChainNetwork \<Rightarrow> ChainReplies) \<Rightarrow> ChainNetwork
     \<Rightarrow> exn + TokenBalance list" where
  "fetchChainBalances env toFixed net chain =
     (let chainConfig = CHAIN_CONFIGS chain;
          rpcUrl = env (cfg_rpcUrl chainConfig)
      in if \<not> is_set rpcUrl then Inr []
         else
           (case chain_try env toFixed (net chain) chain of
              Inr balances \<Rightarrow> Inr balances
            | Inl err \<Rightarrow> Inr []))"

subsection \<open>The handler\<close>

text \<open>
  \<^verbatim>\<open>Promise.all\<close> over the chains: the arrays in chain order, or the first rejection.
\<close>

fun promise_all :: "(exn + 'a) list \<Rightarrow> exn + 'a list" where
  "promise_all [] = Inr []"
| "promise_all (Inl e # ps) = Inl e"
| "promise_all (Inr x # ps) = (case promise_all ps of Inl e \<Rightarrow> Inl e | Inr xs \<Rightarrow> Inr (x # xs))"

text \<open>
  \<^verbatim>\<open>Array.prototype.sort\<close> with a comparison function is a stable sort: an element goes
  before another when the comparison is negative, and elements that compare equal
  keep their order. It is modelled by insertion from the right end.
\<close>

fun insert_by :: "('a \<Rightarrow> 'a \<Rightarrow> rat) \<Rightarrow> 'a \<Rightarrow> 'a list \<Rightarrow> 'a list" where
  "insert_by cmp x [] = [x]"
| "insert_by cmp x (y # ys) = (if cmp x y \<le> 0 then x # y # ys else y # insert_by cmp x ys)"

definition array_sort :: "('a \<Rightarrow> 'a \<Rightarrow> rat) \<Rightarrow> 'a list \<Rightarrow> 'a list" where
  "array_sort cmp xs = foldr (insert_by cmp) xs []"

text \<open>
  \<open>byChain\<close> is an object used as a dictionary; \<^verbatim>\<open>Object.entries\<close> lists its keys in
  the order they were first assigned, so it is an association list that grows at the
  end. \<open>group_token\<close> is the body of the \<^verbatim>\<open>forEach\<close> of lines 655 to 658.
\<close>

fun group_token ::
  "(ChainNetwork \<times> TokenBalance list) list \<Rightarrow> TokenBalance
     \<Rightarrow> (ChainNetwork \<times> TokenBalance list) list" where
  "group_token [] token = [(t_chain token, [token])]"
| "group_token ((c, ts) # byChain) token =
     (if c = t_chain token then (c, ts @ [token]) # byChain
      else (c, ts) # group_token byChain token)"

text \<open>The entries of \<open>data.tokens\<close>.\<close>

record TokenView =
  v_symbol :: string
  v_name :: string
  v_balance :: string
  v_usdValue :: rat
  v_chain :: ChainNetwork
  v_contractAddress :: "string option"

definition token_view :: "TokenBalance \<Rightarrow> TokenView" where
  "token_view token =
     \<lparr> v_symbol = t_symbol token, v_name = t_name token, v_balance = t_balance token,
       v_usdValue = t_usdValue token, v_chain = t_chain token,
       v_contractAddress = t_contractAddress token \<rparr>"

text \<open>
  The result of the action. The text is modelled by its structure, not by its
  characters: the portfolio text shows the address and the total and then either the
  sentence that no tokens were found or the number of tokens and the groups of
  \<open>byChain\<close> in the order of \<^verbatim>\<open>Object.entries\<close>; the fallback text shows the address.
  The optional progress \<open>callback\<close>, which is called and not awaited, is left out.
\<close>

datatype assets = No_tokens_found | Assets nat "(ChainNetwork \<times> TokenBalance list) list"

datatype rendering = Portfolio_text string rat assets | Fallback_text string | Other_text string

record PortfolioData =
  d_address :: string
  d_totalBalance :: rat
  d_totalBalanceUsd :: string
  d_tokenCount :: nat
  d_tokens :: "TokenView list"

datatype result_data = Portfolio PortfolioData | Failure string string | Other_data

record ActionResult =
  ar_text :: rendering
  ar_success :: bool
  ar_data :: result_data

text \<open>
  What \<^verbatim>\<open>getEntityWallet\<close>, which is outside this file, hands to the handler: a failure
  with the result to return, or the address of the wallet.
\<close>

datatype wallet = Wallet_failed ActionResult | Wallet_found string

definition supported_chains :: "ChainNetwork list" where
  "supported_chains = [Base, Ethereum, Polygon]"

text \<open>Lines 645 to 658: the flattened balances, their total, their order, their groups.\<close>

definition totalUsdValue :: "TokenBalance list \<Rightarrow> rat" where
  "totalUsdValue allBalances = foldl (\<lambda>sum token. sum + t_usdValue token) 0 allBalances"

definition sort_balances :: "TokenBalance list \<Rightarrow> TokenBalance list" where
  "sort_balances allBalances = array_sort (\<lambda>a b. t_usdValue b - t_usdValue a) allBalances"

definition byChain :: "TokenBalance list \<Rightarrow> (ChainNetwork \<times> TokenBalance list) list" where
  "byChain allBalances = foldl group_token [] allBalances"

definition handler ::
  "environment \<Rightarrow> (nat \<Rightarrow> rat \<Rightarrow> string) \<Rightarrow> (ChainNetwork \<Rightarrow> ChainReplies) \<Rightarrow> wallet
     \<Rightarrow> ActionResult" where
  "handler env toFixed net wallet =
     (case wallet of
        Wallet_failed result \<Rightarrow> result
      | Wallet_found address \<Rightarrow>
          (case promise_all (map (\<lambda>chain. fetchChainBalances env toFixed net chain) supported_chains) of
             Inr allBalancesArrays \<Rightarrow>
               (let flat = concat allBalancesArrays;
                    total = totalUsdValue flat;
                    allBalances = sort_balances flat;
                    groups = byChain allBalances;
                    data = \<lparr> d_address = address, d_totalBalance = total,
                             d_totalBalanceUsd = CHR ''$'' # toFixed 2 total,
                             d_tokenCount = length allBalances,
                             d_tokens = map token_view allBalances \<rparr>
                in \<lparr> ar_text =
                       Portfolio_text address total
                         (if length allBalances = 0 then No_tokens_found
                          else Assets (length allBalances) groups),
                     ar_success = True,
                     ar_data = Portfolio data \<rparr>)
           | Inl (Exn errorMessage) \<Rightarrow>
               \<lparr> ar_text = Fallback_text address, ar_success = False,
                 ar_data = Failure address errorMessage \<rparr>))"

subsection \<open>Sample surroundings for the wallet action\<close>

text \<open>
  Base answers with no native balance and one token, 100000000 units of a contract
  with 6 decimals priced at 1 USD by the pricing API; the request to Ethereum is
  rejected; Polygon has no endpoint configured.
\<close>

definition sample_env :: environment where
  "sample_env =
     [''BASE_RPC_URL'' \<mapsto> ''https://base.example'',
      ''ETHEREUM_RPC_URL'' \<mapsto> ''https://eth.example'',
      ''COINGECKO_API_KEY'' \<mapsto> ''key'']"

definition usdc :: CoinData where
  "usdc = \<lparr> cg_symbol = Some ''usdc'', cg_name = Some ''USD Coin'',
            cg_decimal_place = (\<lambda>p. Some 6), cg_usd = Some 1 \<rparr>"

definition down :: ChainReplies where
  "down = \<lparr> tokens_reply = TokRejected ''fetch failed'',
            native_reply = NatRejected ''fetch failed'',
            price_reply = PriceRejected ''fetch failed'',
            api_reply = (\<lambda>a. ApiRejected ''fetch failed''),
            onchain_reply = (\<lambda>a. ReadRejected ''fetch failed'') \<rparr>"

definition base_up :: ChainReplies where
  "base_up = \<lparr> tokens_reply =
                 TokResponse True 200
                   (TokJson False
                      (Entries [Some \<lparr> e_contractAddress = ''0xA0'', e_tokenBalance = Some 100000000 \<rparr>])),
               native_reply = NatJson (Balance 0),
               price_reply = PriceUsd None,
               api_reply = (\<lambda>a. ApiResponse True (ApiData usdc)),
               onchain_reply = (\<lambda>a. ReadRejected ''execution reverted'') \<rparr>"


definition plain :: "nat \<Rightarrow> rat \<Rightarrow> string" where
  "plain digits x = []"

text \<open>Replies of a chain where only the contract reads work.\<close>

definition contract_only :: ChainReplies where
  "contract_only = down\<lparr> onchain_reply := (\<lambda>a. ReadOk ''dai'' ''Dai Stablecoin'' 18) \<rparr>"

text \<open>
  A wallet that holds nothing but native tokens priced at 1 USD: 5 on Base, 7 on
  Polygon and 7 on Ethereum, all endpoints configured.
\<close>

definition native_only :: "int \<Rightarrow> ChainReplies" where
  "native_only wei =
     \<lparr> tokens_reply = TokResponse True 200 (TokJson False NoBalances),
       native_reply = NatJson (Balance wei),
       price_reply = PriceUsd (Some 1),
       api_reply = (\<lambda>a. ApiRejected ''fetch failed''),
       onchain_reply = (\<lambda>a. ReadRejected ''fetch failed'') \<rparr>"

definition native_net :: "ChainNetwork \<Rightarrow> ChainReplies" where
  "native_net chain = (if chain = Base then native_only 5000000000000000000
                       else native_only 7000000000000000000)"

definition full_env :: environment where
  "full_env =
     [''BASE_RPC_URL'' \<mapsto> ''https://base.example'',
      ''ETHEREUM_RPC_URL'' \<mapsto> ''https://eth.example'',
      ''POLYGON_RPC_URL'' \<mapsto> ''https://polygon.example'']"

definition native_token :: "ChainNetwork \<Rightarrow> rat \<Rightarrow> TokenBalance" where
  "native_token chain v =
     \<lparr> t_symbol = nt_symbol (cfg_nativeToken (CHAIN_CONFIGS chain)),
       t_name = nt_name (cfg_nativeToken (CHAIN_CONFIGS chain)),
       t_balance = [], t_usdValue = v, t_contractAddress = None, t_chain = chain,
       t_decimals = 18 \<rparr>"

section \<open>Properties of the catalog\<close>

subsection \<open>Auxiliary facts\<close>

lemma resolve_loop_map:
  "resolve_loop ps inputs results = results @ map (resolve_one ps) inputs"
  by (induction inputs arbitrary: results) simp_all

lemma load_from_returns:
  "\<exists>w' s'. load_from net rnd attempt ws = Inr (w', s')"
proof (induction net rnd attempt ws rule: load_from.induct)
  case (1 net rnd attempt w s)
  show ?case
    apply (subst load_from.simps)
    using 1
    apply (auto simp: Let_def split: prod.splits sum.splits)
    done
qed

lemma load_from_success:
  assumes "attempt \<le> maxAttempts" and "net (requests w) = (el, reply)"
    and "fetch_list reply = Inr list"
  shows "\<exists>w'. load_from net rnd attempt (w, s)
            = Inr (w', s\<lparr> cache := list, cacheTimestampMs := now w + int el \<rparr>)
          \<and> requests w' = Suc (requests w)
          \<and> logs w' = logs w @ [Debug_loading attempt, Info_loaded (length list) (ttlMs s)]
          \<and> now w' = now w + int el"
  using assms by (subst load_from.simps) (simp add: Let_def logger_def)

lemma load_from_gave_up:
  assumes "attempt = maxAttempts" and "net (requests w) = (el, reply)"
    and "fetch_list reply = Inl e"
  shows "\<exists>w'. load_from net rnd attempt (w, s) = Inr (w', s)
          \<and> requests w' = Suc (requests w)
          \<and> logs w' = logs w @ [Debug_loading attempt, Error_gave_up e]"
  using assms by (subst load_from.simps) (simp add: Let_def logger_def)

lemma load_from_retry:
  assumes "attempt < maxAttempts" and "net (requests w) = (el, reply)"
    and "fetch_list reply = Inl e"
  shows "\<exists>w1 b. load_from net rnd attempt (w, s) = load_from net rnd (Suc attempt) (w1, s)
          \<and> requests w1 = Suc (requests w)
          \<and> logs w1 = logs w @ [Debug_loading attempt, Warn_retrying attempt e b]
          \<and> b = baseDelayMs * 2 ^ (attempt - 1) + rnd (draws w) mod 200
          \<and> now w1 = now w + int el + int b"
  using assms
  apply (subst load_from.simps)
  apply (simp add: Let_def logger_def)
  apply (rule exI, rule conjI, rule refl)
  apply simp
  done

lemma attempts_logged_simps:
  "attempts_logged [] = []"
  "attempts_logged (Debug_loading n # es) = n # attempts_logged es"
  "attempts_logged (Info_loaded c t # es) = attempts_logged es"
  "attempts_logged (Warn_retrying a e b # es) = attempts_logged es"
  "attempts_logged (Error_gave_up e # es) = attempts_logged es"
  by (simp_all add: attempts_logged_def List.map_filter_simps)

lemma load_from_gave_up_now:
  assumes "attempt = maxAttempts" and "net (requests w) = (el, reply)"
    and "fetch_list reply = Inl e"
  shows "\<exists>w'. load_from net rnd attempt (w, s) = Inr (w', s)
          \<and> requests w' = Suc (requests w)
          \<and> logs w' = logs w @ [Debug_loading attempt, Error_gave_up e]
          \<and> now w' = now w + int el"
  using assms by (subst load_from.simps) (simp add: Let_def logger_def)

lemma load_from_outcome:
  assumes "attempt \<le> maxAttempts"
  shows "\<exists>w' s' n new. load_from net rnd attempt (w, s) = Inr (w', s')
          \<and> attempt \<le> n \<and> n \<le> maxAttempts
          \<and> requests w' = requests w + (Suc n - attempt)
          \<and> logs w' = logs w @ new
          \<and> attempts_logged new = [attempt..<Suc n]
          \<and> (\<forall>i < n - attempt. isl (fetch_list (snd (net (requests w + i)))))
          \<and> (case fetch_list (snd (net (requests w + (n - attempt)))) of
                Inr list \<Rightarrow> s' = s\<lparr> cache := list, cacheTimestampMs := now w' \<rparr>
              | Inl e \<Rightarrow> n = maxAttempts \<and> s' = s)
          \<and> now w \<le> now w'"
  using assms
proof (induction "maxAttempts - attempt" arbitrary: attempt w)
  case 0
  then have last: "attempt = maxAttempts" by simp
  obtain el reply where nr: "net (requests w) = (el, reply)" by (cases "net (requests w)")
  show ?case
  proof (cases "fetch_list reply")
    case (Inr list)
    from load_from_success[of attempt net w el reply list rnd s, OF "0.prems" nr Inr] obtain w' where
      "load_from net rnd attempt (w, s) = Inr (w', s\<lparr> cache := list, cacheTimestampMs := now w + int el \<rparr>)"
      "requests w' = Suc (requests w)"
      "logs w' = logs w @ [Debug_loading attempt, Info_loaded (length list) (ttlMs s)]"
      "now w' = now w + int el"
      by blast
    then show ?thesis using "0.prems" nr Inr
      by (intro exI[of _ w'] exI[of _ "s\<lparr> cache := list, cacheTimestampMs := now w + int el \<rparr>"]
              exI[of _ attempt] exI[of _ "[Debug_loading attempt, Info_loaded (length list) (ttlMs s)]"])
         (simp add: attempts_logged_simps)
  next
    case (Inl e)
    from load_from_gave_up_now[of attempt net w el reply e rnd s, OF last nr Inl] obtain w' where
      "load_from net rnd attempt (w, s) = Inr (w', s)"
      "requests w' = Suc (requests w)"
      "logs w' = logs w @ [Debug_loading attempt, Error_gave_up e]"
      "now w' = now w + int el"
      by blast
    then show ?thesis using "0.prems" nr Inl last
      by (intro exI[of _ w'] exI[of _ s] exI[of _ attempt] exI[of _ "[Debug_loading attempt, Error_gave_up e]"])
         (simp add: attempts_logged_simps)
  qed
next
  case (Suc k)
  then have lt: "attempt < maxAttempts" by simp
  obtain el reply where nr: "net (requests w) = (el, reply)" by (cases "net (requests w)")
  show ?case
  proof (cases "fetch_list reply")
    case (Inr list)
    from load_from_success[of attempt net w el reply list rnd s, OF Suc.prems nr Inr] obtain w' where
      "load_from net rnd attempt (w, s) = Inr (w', s\<lparr> cache := list, cacheTimestampMs := now w + int el \<rparr>)"
      "requests w' = Suc (requests w)"
      "logs w' = logs w @ [Debug_loading attempt, Info_loaded (length list) (ttlMs s)]"
      "now w' = now w + int el"
      by blast
    then show ?thesis using Suc.prems nr Inr
      by (intro exI[of _ w'] exI[of _ "s\<lparr> cache := list, cacheTimestampMs := now w + int el \<rparr>"]
              exI[of _ attempt] exI[of _ "[Debug_loading attempt, Info_loaded (length list) (ttlMs s)]"])
         (simp add: attempts_logged_simps)
  next
    case (Inl e)
    from load_from_retry[of attempt net w el reply e rnd s, OF lt nr Inl] obtain w1 b where
      step: "load_from net rnd attempt (w, s) = load_from net rnd (Suc attempt) (w1, s)"
      and rq: "requests w1 = Suc (requests w)"
      and lg: "logs w1 = logs w @ [Debug_loading attempt, Warn_retrying attempt e b]"
      and nw: "now w1 = now w + int el + int b"
      by blast
    have "k = maxAttempts - Suc attempt" "Suc attempt \<le> maxAttempts"
      using Suc.hyps(2) lt by simp_all
    from Suc.hyps(1)[OF this, of w1] obtain w' s' n new where
      r: "load_from net rnd (Suc attempt) (w1, s) = Inr (w', s')"
      and n: "Suc attempt \<le> n" "n \<le> maxAttempts"
      and rq': "requests w' = requests w1 + (Suc n - Suc attempt)"
      and lg': "logs w' = logs w1 @ new"
      and at: "attempts_logged new = [Suc attempt..<Suc n]"
      and fl: "\<forall>i < n - Suc attempt. isl (fetch_list (snd (net (requests w1 + i))))"
      and oc: "(case fetch_list (snd (net (requests w1 + (n - Suc attempt)))) of
                Inr list \<Rightarrow> s' = s\<lparr> cache := list, cacheTimestampMs := now w' \<rparr>
              | Inl e \<Rightarrow> n = maxAttempts \<and> s' = s)"
      and nw': "now w1 \<le> now w'"
      by blast
    have a: "attempts_logged ([Debug_loading attempt, Warn_retrying attempt e b] @ new) = [attempt..<Suc n]"
      using at n by (simp add: attempts_logged_simps upt_conv_Cons)
    have f: "\<forall>i < n - attempt. isl (fetch_list (snd (net (requests w + i))))"
    proof (intro allI impI)
      fix i assume i: "i < n - attempt"
      show "isl (fetch_list (snd (net (requests w + i))))"
      proof (cases i)
        case 0
        then show ?thesis using nr Inl by simp
      next
        case (Suc j)
        then have "j < n - Suc attempt" using i by simp
        with fl have "isl (fetch_list (snd (net (requests w1 + j))))" by blast
        then show ?thesis using Suc rq by simp
      qed
    qed
    have idx: "requests w1 + (n - Suc attempt) = requests w + (n - attempt)"
      using rq n by simp
    have o: "(case fetch_list (snd (net (requests w + (n - attempt)))) of
                Inr list \<Rightarrow> s' = s\<lparr> cache := list, cacheTimestampMs := now w' \<rparr>
              | Inl e \<Rightarrow> n = maxAttempts \<and> s' = s)"
      using oc by (simp only: idx)
    have t: "now w \<le> now w'" using nw nw' by simp
    have l: "logs w' = logs w @ ([Debug_loading attempt, Warn_retrying attempt e b] @ new)"
      using lg lg' by simp
    have q: "requests w' = requests w + (Suc n - attempt)" using rq rq' n by simp
    have le: "attempt \<le> n" using n by simp
    show ?thesis
      by (intro exI[of _ w'] exI[of _ s'] exI[of _ n]
              exI[of _ "[Debug_loading attempt, Warn_retrying attempt e b] @ new"] conjI)
         (simp only: step r, rule le, rule n(2), rule q, rule l, rule a, rule f, rule o, rule t)
  qed
qed

lemma load_from_all_fail:
  assumes "attempt \<le> maxAttempts"
    and "\<forall>i < Suc maxAttempts - attempt. isl (fetch_list (snd (net (requests w + i))))"
  shows "\<exists>w' e. load_from net rnd attempt (w, s) = Inr (w', s)
          \<and> requests w' = requests w + (Suc maxAttempts - attempt)
          \<and> last (logs w') = Error_gave_up e"
  using assms
proof (induction "maxAttempts - attempt" arbitrary: attempt w)
  case 0
  then have last: "attempt = maxAttempts" by simp
  obtain el reply where nr: "net (requests w) = (el, reply)" by (cases "net (requests w)")
  from "0.prems"(2) last have "isl (fetch_list (snd (net (requests w + 0))))" by simp
  with nr obtain e where e: "fetch_list reply = Inl e" by (cases "fetch_list reply") simp_all
  from load_from_gave_up[of attempt net w el reply e rnd s, OF last nr e] last show ?case by auto
next
  case (Suc k)
  then have lt: "attempt < maxAttempts" by simp
  obtain el reply where nr: "net (requests w) = (el, reply)" by (cases "net (requests w)")
  have "0 < Suc maxAttempts - attempt" using lt by simp
  with Suc.prems(2) have "isl (fetch_list (snd (net (requests w + 0))))" by blast
  with nr obtain e where e: "fetch_list reply = Inl e" by (cases "fetch_list reply") simp_all
  from load_from_retry[of attempt net w el reply e rnd s, OF lt nr e] obtain w1 where
    step: "load_from net rnd attempt (w, s) = load_from net rnd (Suc attempt) (w1, s)"
    and rq: "requests w1 = Suc (requests w)"
    by blast
  have k: "k = maxAttempts - Suc attempt" "Suc attempt \<le> maxAttempts"
    using Suc.hyps(2) lt by simp_all
  have "\<forall>i < Suc maxAttempts - Suc attempt. isl (fetch_list (snd (net (requests w1 + i))))"
  proof (intro allI impI)
    fix i assume "i < Suc maxAttempts - Suc attempt"
    then have "Suc i < Suc maxAttempts - attempt" using lt by simp
    with Suc.prems(2) have "isl (fetch_list (snd (net (requests w + Suc i))))" by blast
    then show "isl (fetch_list (snd (net (requests w1 + i))))" by (simp add: rq)
  qed
  from Suc.hyps(1)[OF k this] step rq lt show ?case by auto
qed


lemma find_first_hit:
  "i < length xs \<Longrightarrow> P (xs ! i) \<Longrightarrow> \<forall>j<i. \<not> P (xs ! j) \<Longrightarrow> find P xs = Some (xs ! i)"
  by (simp add: find_Some_iff) blast

lemma find_no_hit: "\<forall>x\<in>set xs. \<not> P x \<Longrightarrow> find P xs = None"
  by (simp add: find_None_iff)

lemma ensureFresh_returns: "\<exists>w' s'. ensureFresh net rnd (w, s) = Inr (w', s')"
  using load_from_returns[of net rnd 1 "(w, s)"] by (simp add: ensureFresh_def loadIndex_def)

lemma r_id_resolve_one: "r_id (resolve_one ps raw) = trim raw"
  by (simp add: resolve_one_def Let_def split: option.splits)

subsection \<open>Claim C1: one result per query, in input order\<close>

text \<open>
  C1. For every list of query strings, every network and every state of the service,
  \<open>getProtocolsByNames\<close> returns normally with exactly one result per input query; the
  results are in input order: the result list is the input list mapped through the
  per-query resolution against the cache as the freshness check left it, and the
  \<open>id\<close> fields are the trimmed inputs in order.
\<close>

theorem one_result_per_query_in_order:
  "\<exists>w' s' rs. getProtocolsByNames net rnd names (w, s) = Inr ((w', s'), rs)
      \<and> length rs = length names
      \<and> map r_id rs = map trim names
      \<and> rs = map (resolve_one (cache s')) names"
proof -
  obtain w' s' where "ensureFresh net rnd (w, s) = Inr (w', s')"
    using ensureFresh_returns by blast
  then have "getProtocolsByNames net rnd names (w, s)
               = Inr ((w', s'), map (resolve_one (cache s')) names)"
    by (simp add: getProtocolsByNames_def resolve_loop_map)
  then show ?thesis
    by (simp add: r_id_resolve_one comp_def)
qed

text \<open>The theorem at a batch of three queries, one of them blank.\<close>

theorem one_result_per_query_in_order_witness:
  "\<exists>w' s' rs. getProtocolsByNames net_up no_jitter [''Aave'', ''  '', ''compound''] (world0, new_service)
       = Inr ((w', s'), rs)
      \<and> length rs = 3
      \<and> map r_id rs = [''Aave'', [], ''compound'']"
  using one_result_per_query_in_order
          [of net_up no_jitter "[''Aave'', ''  '', ''compound'']" world0 new_service]
  by (fastforce simp: trim_def is_ws_def)

subsection \<open>Claim C2: tier order and first record in generation order\<close>

lemma find_picked_tier:
  assumes k: "k < length tiers" and i: "i < length ps"
    and hit: "(tiers ! k) q (ps ! i)"
    and first: "\<forall>j<i. \<not> (tiers ! k) q (ps ! j)"
    and earlier: "\<forall>k'<k. \<forall>p\<in>set ps. \<not> (tiers ! k') q p"
  shows "find_picked ps q = Some (ps ! i)"
proof -
  have none: "\<And>k'. k' < k \<Longrightarrow> find ((tiers ! k') q) ps = None"
    using earlier by (simp add: find_no_hit)
  have some: "find ((tiers ! k) q) ps = Some (ps ! i)"
    using i hit first by (rule find_first_hit)
  from k have "k = 0 \<or> k = 1 \<or> k = 2 \<or> k = 3 \<or> k = 4"
    by (auto simp: tiers_def)
  then show ?thesis
  proof (elim disjE)
    assume "k = 0"
    with some show ?thesis by (simp add: find_picked_def tiers_def)
  next
    assume k1: "k = 1"
    with none[of 0] some show ?thesis by (simp add: find_picked_def tiers_def)
  next
    assume k2: "k = 2"
    with none[of 0] none[of 1] some show ?thesis by (simp add: find_picked_def tiers_def)
  next
    assume k3: "k = 3"
    with none[of 0] none[of 1] none[of 2] some show ?thesis by (simp add: find_picked_def tiers_def)
  next
    assume k4: "k = 4"
    with none[of 0] none[of 1] none[of 2] none[of 3] some show ?thesis
      by (simp add: find_picked_def tiers_def)
  qed
qed

text \<open>
  C2. For a query that is not blank, let \<open>q\<close> be its trimmed, lowercased text. If tier
  \<open>k\<close> (in the order exact name, exact symbol, exact slug, name prefix, slug prefix)
  is the first tier that any record matches, and record \<open>i\<close> is the first record in
  generation order matching tier \<open>k\<close>, then the query resolves successfully to record
  \<open>i\<close>. Matching compares lowercased text with lowercased text, so any query with the
  same lowercased trimmed text resolves to the same record.
\<close>

theorem tiered_case_insensitive_matching:
  assumes "trim raw \<noteq> []"
    and "k < length tiers" and "i < length ps"
    and "(tiers ! k) (toLowerCase (trim raw)) (ps ! i)"
    and "\<forall>j<i. \<not> (tiers ! k) (toLowerCase (trim raw)) (ps ! j)"
    and "\<forall>k'<k. \<forall>p\<in>set ps. \<not> (tiers ! k') (toLowerCase (trim raw)) p"
  shows "resolve_one ps raw =
           \<lparr> r_id = trim raw, r_success = True, r_data = Some (shapeProtocol (ps ! i)),
             r_error = None \<rparr>
       \<and> (\<forall>raw'. toLowerCase (trim raw') = toLowerCase (trim raw) \<longrightarrow>
             r_data (resolve_one ps raw') = Some (shapeProtocol (ps ! i)))"
proof -
  have p: "find_picked ps (toLowerCase (trim raw)) = Some (ps ! i)"
    using assms(2-6) by (rule find_picked_tier)
  have nb: "\<And>raw'. toLowerCase (trim raw') = toLowerCase (trim raw) \<Longrightarrow> trim raw' \<noteq> []"
    using assms(1) by (auto simp: toLowerCase_def)
  show ?thesis
    using p assms(1) nb by (simp add: resolve_one_def Let_def)
qed

lemma lower_samples:
  "toLowerCase ''Aave'' = ''aave''" "toLowerCase ''Aave V2'' = ''aave v2''"
  "toLowerCase ''aa'' = ''aa''"
  by code_simp+

lemma trim_samples:
  "trim ''Aave'' = ''Aave''" "trim ''aa'' = ''aa''"
  by (simp_all add: trim_def is_ws_def)

text \<open>
  The two examples of the specification: with the records Aave and Aave V2 in that
  order, the query Aave is an exact-name match on the first record (tier 0), and the
  query aa matches no exact tier and is a name-prefix match (tier 3) whose first
  record in generation order is Aave.
\<close>

theorem tiered_case_insensitive_matching_witness:
  "resolve_one aave_catalog ''Aave'' =
      \<lparr> r_id = ''Aave'', r_success = True, r_data = Some (shapeProtocol (only_name ''Aave'')),
        r_error = None \<rparr>
   \<and> resolve_one aave_catalog ''aa'' =
      \<lparr> r_id = ''aa'', r_success = True, r_data = Some (shapeProtocol (only_name ''Aave'')),
        r_error = None \<rparr>"
proof -
  have exact: "name_exact ''aave'' (only_name ''Aave'')"
    by (simp add: name_exact_def only_name_def lower_samples)
  have noexact: "\<forall>k'<3. \<forall>p\<in>set aave_catalog. \<not> (tiers ! k') ''aa'' p"
    by (auto simp: less_Suc_eq numeral_3_eq_3 tiers_def aave_catalog_def only_name_def
        name_exact_def symbol_exact_def slug_exact_def slug_lower_def lower_samples toLowerCase_def)
  have pre: "name_prefix ''aa'' (only_name ''Aave'')"
    by (simp add: name_prefix_def only_name_def lower_samples)
  have a: "resolve_one aave_catalog ''Aave'' =
      \<lparr> r_id = ''Aave'', r_success = True, r_data = Some (shapeProtocol (only_name ''Aave'')),
        r_error = None \<rparr>"
    using tiered_case_insensitive_matching[where raw="''Aave''" and k=0 and ps=aave_catalog and i=0] exact
    by (simp add: trim_samples lower_samples tiers_def aave_catalog_def)
  have b: "resolve_one aave_catalog ''aa'' =
      \<lparr> r_id = ''aa'', r_success = True, r_data = Some (shapeProtocol (only_name ''Aave'')),
        r_error = None \<rparr>"
    using tiered_case_insensitive_matching[where raw="''aa''" and k=3 and ps=aave_catalog and i=0] pre noexact
    by (simp add: trim_samples lower_samples tiers_def aave_catalog_def)
  from a b show ?thesis by simp
qed


subsection \<open>Claim C4: retry exhaustion keeps the previous generation\<close>

text \<open>
  C4. If the catalog fetch fails on each of the 5 attempts (the next \<open>maxAttempts\<close>
  requests are rejected, answered with a non-success status, or carry a body that
  does not parse), then \<open>loadIndex\<close> returns normally after exactly 5 requests with
  the service unchanged (record list, timestamp and TTL), the last thing it does
  being the error log entry; \<open>ensureFresh\<close> and \<open>getProtocolsByNames\<close> return normally
  too, with the service unchanged, and the queries are answered from the previous
  generation.
\<close>

theorem retry_exhaustion_keeps_generation:
  assumes "\<forall>i<maxAttempts. isl (fetch_list (snd (net (requests w + i))))"
  shows "(\<exists>w' e. loadIndex net rnd (w, s) = Inr (w', s)
            \<and> requests w' = requests w + maxAttempts
            \<and> last (logs w') = Error_gave_up e)
       \<and> (\<exists>w'. ensureFresh net rnd (w, s) = Inr (w', s))
       \<and> (\<exists>w'. getProtocolsByNames net rnd names (w, s)
                  = Inr ((w', s), map (resolve_one (cache s)) names))"
proof -
  have "1 \<le> maxAttempts" by (simp add: maxAttempts_def)
  moreover have "\<forall>i < Suc maxAttempts - 1. isl (fetch_list (snd (net (requests w + i))))"
    using assms by simp
  ultimately obtain w' e where
    l: "load_from net rnd 1 (w, s) = Inr (w', s)"
      "requests w' = requests w + (Suc maxAttempts - 1)" "last (logs w') = Error_gave_up e"
    using load_from_all_fail[of 1 net w rnd s] by blast
  then have a: "\<exists>w' e. loadIndex net rnd (w, s) = Inr (w', s)
            \<and> requests w' = requests w + maxAttempts \<and> last (logs w') = Error_gave_up e"
    by (auto simp: loadIndex_def)
  have b: "\<exists>w'. ensureFresh net rnd (w, s) = Inr (w', s)"
    using l(1) by (simp add: ensureFresh_def loadIndex_def)
  then have c: "\<exists>w'. getProtocolsByNames net rnd names (w, s)
                  = Inr ((w', s), map (resolve_one (cache s)) names)"
    by (auto simp: getProtocolsByNames_def resolve_loop_map)
  from a b c show ?thesis by blast
qed

text \<open>The theorem on a network that rejects every request, from a loaded service.\<close>

theorem retry_exhaustion_keeps_generation_witness:
  "\<exists>w' e. loadIndex net_down no_jitter (world0, loaded_at 0) = Inr (w', loaded_at 0)
      \<and> requests w' = requests world0 + maxAttempts
      \<and> last (logs w') = Error_gave_up e"
proof -
  have h: "\<forall>i<maxAttempts. isl (fetch_list (snd (net_down (requests world0 + i))))"
    by (simp add: net_down_def)
  from retry_exhaustion_keeps_generation[OF h, of no_jitter "loaded_at 0" "[]"]
  show ?thesis by blast
qed

subsection \<open>Claim C5: a refresh exactly when the generation is empty or too old\<close>

text \<open>
  C5. The default TTL is 300000 ms. \<open>ensureFresh\<close> returns normally, and it sends
  requests (a refresh) if and only if the cache is empty or the age of the generation,
  \<open>now - cacheTimestampMs\<close>, is greater than \<open>ttlMs\<close>. When it refreshes, there is
  exactly one attempt sequence: the attempts announced in the log are 1, 2, ..., n in
  order for some n between 1 and 5, and exactly n requests are sent, of which the
  first n - 1 fail. If request n succeeds, the service afterwards holds the list of
  that reply as its generation, stamped with the clock at the moment it was stored,
  and the TTL is unchanged; if request n fails too, then n is 5 and the service is
  unchanged. When \<open>ensureFresh\<close> does not refresh, world and service are unchanged.
  \<open>getProtocolsByNames\<close> answers all its queries from the generation this one call
  of \<open>ensureFresh\<close> left, that is from the refreshed generation when a refresh
  succeeded.
\<close>

theorem ensureFresh_refreshes_iff_stale:
  "ttlMs new_service = Fin 300000
   \<and> (\<exists>w' s'. ensureFresh net rnd (w, s) = Inr (w', s')
        \<and> getProtocolsByNames net rnd names (w, s)
             = Inr ((w', s'), map (resolve_one (cache s')) names)
        \<and> (requests w < requests w'
             \<longleftrightarrow> cache s = [] \<or> js_gt (Fin (of_int (now w - cacheTimestampMs s))) (ttlMs s))
        \<and> (requests w < requests w' \<longrightarrow>
             (\<exists>n new. 1 \<le> n \<and> n \<le> maxAttempts
                \<and> requests w' = requests w + n
                \<and> logs w' = logs w @ new
                \<and> attempts_logged new = [1..<Suc n]
                \<and> (\<forall>i < n - 1. isl (fetch_list (snd (net (requests w + i)))))
                \<and> (case fetch_list (snd (net (requests w + (n - 1)))) of
                      Inr list \<Rightarrow> s' = s\<lparr> cache := list, cacheTimestampMs := now w' \<rparr>
                    | Inl e \<Rightarrow> n = maxAttempts \<and> s' = s)
                \<and> now w \<le> now w'))
        \<and> (\<not> requests w < requests w' \<longrightarrow> w' = w \<and> s' = s))"
proof (cases "stale w s")
  case True
  have "1 \<le> maxAttempts" by (simp add: maxAttempts_def)
  from load_from_outcome[OF this, of net rnd w s] obtain w' s' n new where
    l: "load_from net rnd 1 (w, s) = Inr (w', s')" "1 \<le> n" "n \<le> maxAttempts"
       "requests w' = requests w + (Suc n - 1)" "logs w' = logs w @ new"
       "attempts_logged new = [1..<Suc n]"
    and f: "\<forall>i < n - 1. isl (fetch_list (snd (net (requests w + i))))"
    and o: "(case fetch_list (snd (net (requests w + (n - 1)))) of
              Inr list \<Rightarrow> s' = s\<lparr> cache := list, cacheTimestampMs := now w' \<rparr>
            | Inl e \<Rightarrow> n = maxAttempts \<and> s' = s)"
    and t: "now w \<le> now w'"
    by blast
  have e: "ensureFresh net rnd (w, s) = Inr (w', s')"
    using True l(1) by (simp add: ensureFresh_def loadIndex_def)
  then have g: "getProtocolsByNames net rnd names (w, s)
             = Inr ((w', s'), map (resolve_one (cache s')) names)"
    by (simp add: getProtocolsByNames_def resolve_loop_map)
  have lt: "requests w < requests w'" using l(2,4) by simp
  have st: "cache s = [] \<or> js_gt (Fin (of_int (now w - cacheTimestampMs s))) (ttlMs s)"
    using True by (simp add: stale_def)
  have q: "requests w' = requests w + n" using l(4) by simp
  have tr: "\<exists>n new. 1 \<le> n \<and> n \<le> maxAttempts \<and> requests w' = requests w + n
                \<and> logs w' = logs w @ new \<and> attempts_logged new = [1..<Suc n]
                \<and> (\<forall>i < n - 1. isl (fetch_list (snd (net (requests w + i)))))
                \<and> (case fetch_list (snd (net (requests w + (n - 1)))) of
                      Inr list \<Rightarrow> s' = s\<lparr> cache := list, cacheTimestampMs := now w' \<rparr>
                    | Inl e \<Rightarrow> n = maxAttempts \<and> s' = s)
                \<and> now w \<le> now w'"
    by (intro exI[of _ n] exI[of _ new] conjI)
       (rule l(2), rule l(3), rule q, rule l(5), rule l(6), rule f, rule o, rule t)
  have iff: "requests w < requests w'
             \<longleftrightarrow> cache s = [] \<or> js_gt (Fin (of_int (now w - cacheTimestampMs s))) (ttlMs s)"
    using lt st by simp
  have un: "\<not> requests w < requests w' \<longrightarrow> w' = w \<and> s' = s"
    using lt by simp
  have d: "ttlMs new_service = Fin 300000" by (simp add: new_service_def)
  show ?thesis
    by (rule conjI[OF d], rule exI[of _ w'], rule exI[of _ s'])
       (intro conjI impI, rule e, rule g, rule iff, rule tr, simp_all add: lt)
next
  case False
  then have e: "ensureFresh net rnd (w, s) = Inr (w, s)"
    by (simp add: ensureFresh_def)
  then have g: "getProtocolsByNames net rnd names (w, s)
             = Inr ((w, s), map (resolve_one (cache s)) names)"
    by (simp add: getProtocolsByNames_def resolve_loop_map)
  have st: "\<not> (cache s = [] \<or> js_gt (Fin (of_int (now w - cacheTimestampMs s))) (ttlMs s))"
    using False by (simp add: stale_def)
  show ?thesis
    using e g st by (simp add: new_service_def)
qed

lemma stale_samples:
  "js_gt (Fin (of_int (now world0 - cacheTimestampMs (loaded_at 0)))) (ttlMs (loaded_at 0))"
  "\<not> js_gt (Fin (of_int (now world0 - cacheTimestampMs (loaded_at 900000)))) (ttlMs (loaded_at 900000))"
  "cache (loaded_at 900000) \<noteq> []"
  by (simp_all add: world0_def loaded_at_def aave_catalog_def)

lemma flaky_replies:
  "fetch_list (snd (net_flaky i))
     = (if i < 2 then Inl (FetchRejected ''connect ECONNREFUSED'') else Inr aave_catalog)"
  by (simp add: net_flaky_def net_down_def net_up_def)

text \<open>
  The theorem at a generation loaded 1000000 ms ago on a network that rejects two
  requests and then answers (stale: the refresh takes exactly 3 requests and installs
  the answer, stamped with the time it was stored), and at a generation loaded 100000
  ms ago (fresh: nothing happens).
\<close>

theorem ensureFresh_refreshes_iff_stale_witness:
  "(\<exists>w'. ensureFresh net_flaky no_jitter (world0, loaded_at 0)
            = Inr (w', (loaded_at 0)\<lparr> cache := aave_catalog, cacheTimestampMs := now w' \<rparr>)
         \<and> requests w' = 3 \<and> now world0 \<le> now w')
   \<and> ensureFresh net_flaky no_jitter (world0, loaded_at 900000) = Inr (world0, loaded_at 900000)"
proof -
  from ensureFresh_refreshes_iff_stale[of net_flaky no_jitter world0 "loaded_at 0" "[]"]
  obtain w' s' where
    e: "ensureFresh net_flaky no_jitter (world0, loaded_at 0) = Inr (w', s')"
    and iff: "requests world0 < requests w'
             \<longleftrightarrow> cache (loaded_at 0) = []
                 \<or> js_gt (Fin (of_int (now world0 - cacheTimestampMs (loaded_at 0)))) (ttlMs (loaded_at 0))"
    and imp: "requests world0 < requests w' \<longrightarrow>
             (\<exists>n new. 1 \<le> n \<and> n \<le> maxAttempts
                \<and> requests w' = requests world0 + n
                \<and> logs w' = logs world0 @ new
                \<and> attempts_logged new = [1..<Suc n]
                \<and> (\<forall>i < n - 1. isl (fetch_list (snd (net_flaky (requests world0 + i)))))
                \<and> (case fetch_list (snd (net_flaky (requests world0 + (n - 1)))) of
                      Inr list \<Rightarrow> s' = (loaded_at 0)\<lparr> cache := list, cacheTimestampMs := now w' \<rparr>
                    | Inl e \<Rightarrow> n = maxAttempts \<and> s' = loaded_at 0)
                \<and> now world0 \<le> now w')"
    by blast
  from iff stale_samples(1) have "requests world0 < requests w'" by blast
  with imp obtain n where
    n: "1 \<le> n" "n \<le> maxAttempts" "requests w' = requests world0 + n"
    and f: "\<forall>i < n - 1. isl (fetch_list (snd (net_flaky (requests world0 + i))))"
    and o: "(case fetch_list (snd (net_flaky (requests world0 + (n - 1)))) of
               Inr list \<Rightarrow> s' = (loaded_at 0)\<lparr> cache := list, cacheTimestampMs := now w' \<rparr>
             | Inl e \<Rightarrow> n = maxAttempts \<and> s' = loaded_at 0)"
    and t: "now world0 \<le> now w'"
    by blast
  have r0: "requests world0 = 0" by (simp add: world0_def)
  have le: "n - 1 \<le> 2"
  proof (rule ccontr)
    assume "\<not> n - 1 \<le> 2"
    then have "2 < n - 1" by simp
    with f have "isl (fetch_list (snd (net_flaky (requests world0 + 2))))" by blast
    then show False by (simp add: r0 flaky_replies)
  qed
  have ge: "\<not> n - 1 < 2"
  proof
    assume "n - 1 < 2"
    with o have "n = maxAttempts" by (simp add: r0 flaky_replies)
    with \<open>n - 1 < 2\<close> show False by (simp add: maxAttempts_def)
  qed
  from le ge n(1) have n3: "n = 3" by simp
  with o have s': "s' = (loaded_at 0)\<lparr> cache := aave_catalog, cacheTimestampMs := now w' \<rparr>"
    by (simp add: r0 flaky_replies)
  have a: "\<exists>w'. ensureFresh net_flaky no_jitter (world0, loaded_at 0)
            = Inr (w', (loaded_at 0)\<lparr> cache := aave_catalog, cacheTimestampMs := now w' \<rparr>)
         \<and> requests w' = 3 \<and> now world0 \<le> now w'"
    using e s' n(3) n3 r0 t by (intro exI[of _ w']) simp
  from ensureFresh_refreshes_iff_stale[of net_flaky no_jitter world0 "loaded_at 900000" "[]"]
  have b: "ensureFresh net_flaky no_jitter (world0, loaded_at 900000) = Inr (world0, loaded_at 900000)"
    using stale_samples(2,3) by auto
  from a b show ?thesis by (rule conjI)
qed

subsection \<open>Claim C8: which TTL settings are accepted\<close>

lemmas number_defs = StringToNumber_def trim_def is_ws_def non_decimal_def lower_char_def
  unsigned_decimal_def is_digit_def digit_in_base_def exponent_part_def scale10_def
  nonempty_digits_def

lemma number_samples:
  "StringToNumber ''1.5'' = Fin (3 / 2)"
  "StringToNumber ''60000'' = Fin 60000"
  "StringToNumber ''-5'' = Fin (- 5)"
  "StringToNumber ''soon'' = NaN"
  "StringToNumber ''Infinity'' = PosInf"
  "StringToNumber '' '' = Fin 0"
  by (simp_all add: number_defs)

lemma three_halves_not_int: "(3 / 2 :: rat) \<notin> \<int>"
proof
  assume "(3 / 2 :: rat) \<in> \<int>"
  then obtain z :: int where "(3 / 2 :: rat) = of_int z" by (auto elim: Ints_cases)
  then have "(of_int 3 :: rat) = of_int (2 * z)" by simp
  then have "(3 :: int) = 2 * z" by (simp only: of_int_eq_iff)
  then show False by presburger
qed

text \<open>
  C8 as stated (only non-negative integers are accepted) fails: the setting \<open>1.5\<close> is
  truthy, converts to the number 1.5, which is neither NaN nor negative, and replaces
  the default TTL, although it is not an integer.
\<close>

theorem ttl_setting_fraction_counterexample:
  "ttlMs (apply_ttl_setting (SStr ''1.5'') new_service) = Fin (3 / 2)
   \<and> (3 / 2 :: rat) \<notin> \<int>
   \<and> ttlMs (apply_ttl_setting (SStr ''1.5'') new_service) \<noteq> ttlMs new_service"
  using three_halves_not_int
  by (simp add: apply_ttl_setting_def number_samples isNaN_def js_ge_def Let_def new_service_def)

text \<open>
  C8, amended. The setting replaces the TTL exactly when it is truthy and its
  conversion by \<open>Number\<close> is a non-negative number: a finite value at least 0, integer
  or not, or positive infinity. In every other case (no setting, an empty string, a
  text that is not a number, a negative number) the service is left as it was, so the
  previous TTL, 300000 ms in a new service, is kept.
\<close>

theorem ttl_setting_accepts_nonnegative_numbers:
  "apply_ttl_setting st s =
     (if truthy st \<and> (Number st = PosInf \<or> (\<exists>r. Number st = Fin r \<and> 0 \<le> r))
      then s\<lparr> ttlMs := Number st \<rparr> else s)
   \<and> ttlMs new_service = Fin 300000"
proof -
  have "(\<not> isNaN (Number st) \<and> js_ge (Number st) (Fin 0))
          \<longleftrightarrow> (Number st = PosInf \<or> (\<exists>r. Number st = Fin r \<and> 0 \<le> r))"
    by (cases "Number st") (auto simp: isNaN_def js_ge_def)
  then show ?thesis
    by (auto simp: apply_ttl_setting_def Let_def new_service_def)
qed

text \<open>
  The amended statement at six settings: a number of milliseconds, a negative number,
  a word, \<open>Infinity\<close>, a single blank (which \<open>Number\<close> converts to 0) and no setting.
\<close>

theorem ttl_setting_accepts_nonnegative_numbers_witness:
  "apply_ttl_setting (SStr ''60000'') new_service = new_service\<lparr> ttlMs := Fin 60000 \<rparr>
   \<and> apply_ttl_setting (SStr ''-5'') new_service = new_service
   \<and> apply_ttl_setting (SStr ''soon'') new_service = new_service
   \<and> apply_ttl_setting (SStr ''Infinity'') new_service = new_service\<lparr> ttlMs := PosInf \<rparr>
   \<and> apply_ttl_setting (SStr '' '') new_service = new_service\<lparr> ttlMs := Fin 0 \<rparr>
   \<and> apply_ttl_setting SNull new_service = new_service"
  using ttl_setting_accepts_nonnegative_numbers[of "SStr ''60000''" new_service]
    ttl_setting_accepts_nonnegative_numbers[of "SStr '' ''" new_service]
    ttl_setting_accepts_nonnegative_numbers[of "SStr ''-5''" new_service]
    ttl_setting_accepts_nonnegative_numbers[of "SStr ''soon''" new_service]
    ttl_setting_accepts_nonnegative_numbers[of "SStr ''Infinity''" new_service]
    ttl_setting_accepts_nonnegative_numbers[of SNull new_service]
  by (simp add: number_samples)


subsection \<open>Claim C9: blank and unmatched queries fail on their own, after the freshness check\<close>

lemma lower_nil: "toLowerCase [] = []"
  by (simp add: toLowerCase_def)

lemma trim_blank:
  assumes "\<forall>c\<in>set raw. is_ws c"
  shows "trim raw = []"
proof -
  have "dropWhile is_ws raw = []"
    using assms by (simp add: dropWhile_eq_Nil_conv)
  then show ?thesis by (simp only: trim_def rev.simps dropWhile.simps)
qed

lemma trim_padding:
  assumes a: "\<forall>c\<in>set a. is_ws c" and b: "\<forall>c\<in>set b. is_ws c"
  shows "trim (a @ raw @ b) = trim raw"
proof -
  have 1: "dropWhile is_ws (a @ raw @ b) = dropWhile is_ws (raw @ b)"
    using a by (simp add: dropWhile_append2)
  show ?thesis
  proof (cases "\<forall>c\<in>set raw. is_ws c")
    case True
    then have "dropWhile is_ws (raw @ b) = []" "dropWhile is_ws raw = []"
      using b by (simp_all add: dropWhile_eq_Nil_conv)
    with 1 show ?thesis by (simp only: trim_def)
  next
    case False
    then obtain c where c: "c \<in> set raw" "\<not> is_ws c" by blast
    then have 2: "dropWhile is_ws (raw @ b) = dropWhile is_ws raw @ b"
      by (simp add: dropWhile_append1)
    have "dropWhile is_ws (rev b @ rev (dropWhile is_ws raw))
            = dropWhile is_ws (rev (dropWhile is_ws raw))"
      by (rule dropWhile_append2) (use b in simp)
    with 1 2 show ?thesis by (simp only: trim_def rev_append)
  qed
qed

lemma resolve_one_trim: "trim raw1 = trim raw2 \<Longrightarrow> resolve_one ps raw1 = resolve_one ps raw2"
  by (simp add: resolve_one_def)

lemma find_picked_none:
  assumes "\<forall>k<length tiers. \<forall>p\<in>set ps. \<not> (tiers ! k) q p"
  shows "find_picked ps q = None"
proof -
  have "\<And>k. k < 5 \<Longrightarrow> find ((tiers ! k) q) ps = None"
    using assms by (simp add: find_no_hit tiers_def)
  from this[of 0] this[of 1] this[of 2] this[of 3] this[of 4]
  show ?thesis by (simp add: find_picked_def tiers_def)
qed

lemma ensureFresh_effect:
  "\<exists>w' s'. ensureFresh net rnd (w, s) = Inr (w', s')
      \<and> (cache s = [] \<or> js_gt (Fin (of_int (now w - cacheTimestampMs s))) (ttlMs s)
            \<longrightarrow> requests w < requests w')
      \<and> (\<not> (cache s = [] \<or> js_gt (Fin (of_int (now w - cacheTimestampMs s))) (ttlMs s))
            \<longrightarrow> w' = w \<and> s' = s)"
proof (cases "stale w s")
  case True
  have "1 \<le> maxAttempts" by (simp add: maxAttempts_def)
  from load_from_outcome[OF this, of net rnd w s] obtain w' s' n where
    l: "load_from net rnd 1 (w, s) = Inr (w', s')" "1 \<le> n"
       "requests w' = requests w + (Suc n - 1)"
    by blast
  have e: "ensureFresh net rnd (w, s) = Inr (w', s')"
    using True l(1) by (simp add: ensureFresh_def loadIndex_def)
  have lt: "requests w < requests w'" using l(2,3) by simp
  have st: "cache s = [] \<or> js_gt (Fin (of_int (now w - cacheTimestampMs s))) (ttlMs s)"
    using True by (simp add: stale_def)
  show ?thesis
    by (rule exI[of _ w'], rule exI[of _ s']) (use e lt st in auto)
next
  case False
  then have e: "ensureFresh net rnd (w, s) = Inr (w, s)"
    by (simp add: ensureFresh_def)
  have st: "\<not> (cache s = [] \<or> js_gt (Fin (of_int (now w - cacheTimestampMs s))) (ttlMs s))"
    using False by (simp add: stale_def)
  show ?thesis
    by (rule exI[of _ w], rule exI[of _ s]) (use e st in auto)
qed

text \<open>
  C9 as stated (a blank query fails immediately, without consulting the cache) fails
  on a batch that holds nothing but a blank query: \<open>getProtocolsByNames\<close> awaits
  \<open>ensureFresh\<close> before it looks at any query, and on an empty cache with the network
  down that check sends 5 requests and waits 7500 ms of backoff before the failure
  entry is returned.
\<close>

theorem blank_batch_refreshes_counterexample:
  "getProtocolsByNames net_down no_jitter [''  ''] (world0, new_service) =
     Inr ((\<lparr> now = 1007500, requests = 5, draws = 4,
              logs = [Debug_loading 1,
                      Warn_retrying 1 (FetchRejected ''connect ECONNREFUSED'') 500,
                      Debug_loading 2,
                      Warn_retrying 2 (FetchRejected ''connect ECONNREFUSED'') 1000,
                      Debug_loading 3,
                      Warn_retrying 3 (FetchRejected ''connect ECONNREFUSED'') 2000,
                      Debug_loading 4,
                      Warn_retrying 4 (FetchRejected ''connect ECONNREFUSED'') 4000,
                      Debug_loading 5,
                      Error_gave_up (FetchRejected ''connect ECONNREFUSED'')] \<rparr>,
           new_service),
          [\<lparr> r_id = [], r_success = False, r_data = None,
             r_error = Some ''Empty protocol name'' \<rparr>])
   \<and> requests world0 = 0 \<and> now world0 = 1000000"
  by (simp add: getProtocolsByNames_def ensureFresh_def stale_def loadIndex_def
        load_from.simps net_down_def no_jitter_def world0_def new_service_def logger_def
        maxAttempts_def baseDelayMs_def resolve_one_def trim_def is_ws_def Let_def)

text \<open>
  C9, amended. A query made of white space only (the empty query included) yields
  the failure entry \<open>Empty protocol name\<close> whatever records the cache holds: no matching
  pass runs for it. A query that is not blank and that no record matches in any of
  the five tiers yields a failure entry whose message ends with the trimmed query.
  Before any query is looked at, the call runs the freshness check once: when the
  cache is empty or too old it sends requests, also for a batch of blank queries, and
  when the generation is fresh it changes nothing. Neither kind of failure aborts
  the batch: \<open>getProtocolsByNames\<close> returns normally, and the queries before and after
  get the results they get in the batch without the failing query.
\<close>

theorem blank_and_unmatched_queries_fail_after_freshness_check:
  "((\<forall>c\<in>set raw. is_ws c) \<longrightarrow>
      (\<forall>ps. resolve_one ps raw =
         \<lparr> r_id = [], r_success = False, r_data = None, r_error = Some ''Empty protocol name'' \<rparr>))
   \<and> (trim raw \<noteq> [] \<and> (\<forall>k<length tiers. \<forall>p\<in>set ps. \<not> (tiers ! k) (toLowerCase (trim raw)) p) \<longrightarrow>
        resolve_one ps raw =
          \<lparr> r_id = trim raw, r_success = False, r_data = None,
            r_error = Some (''No protocol match for: '' @ trim raw) \<rparr>)
   \<and> (\<exists>w' s'.
         ensureFresh net rnd (w, s) = Inr (w', s')
       \<and> (cache s = [] \<or> js_gt (Fin (of_int (now w - cacheTimestampMs s))) (ttlMs s)
             \<longrightarrow> requests w < requests w')
       \<and> (\<not> (cache s = [] \<or> js_gt (Fin (of_int (now w - cacheTimestampMs s))) (ttlMs s))
             \<longrightarrow> w' = w \<and> s' = s)
       \<and> getProtocolsByNames net rnd (before @ raw # after) (w, s)
           = Inr ((w', s'), map (resolve_one (cache s')) before
                              @ resolve_one (cache s') raw
                              # map (resolve_one (cache s')) after)
       \<and> getProtocolsByNames net rnd (before @ after) (w, s)
           = Inr ((w', s'), map (resolve_one (cache s')) before
                              @ map (resolve_one (cache s')) after))"
proof -
  have a: "(\<forall>c\<in>set raw. is_ws c) \<longrightarrow>
      (\<forall>ps. resolve_one ps raw =
         \<lparr> r_id = [], r_success = False, r_data = None, r_error = Some ''Empty protocol name'' \<rparr>)"
    by (simp add: resolve_one_def trim_blank)
  have b: "trim raw \<noteq> [] \<and> (\<forall>k<length tiers. \<forall>p\<in>set ps. \<not> (tiers ! k) (toLowerCase (trim raw)) p) \<longrightarrow>
        resolve_one ps raw =
          \<lparr> r_id = trim raw, r_success = False, r_data = None,
            r_error = Some (''No protocol match for: '' @ trim raw) \<rparr>"
    by (auto simp: resolve_one_def Let_def dest: find_picked_none)
  obtain w' s' where e: "ensureFresh net rnd (w, s) = Inr (w', s')"
    and st: "cache s = [] \<or> js_gt (Fin (of_int (now w - cacheTimestampMs s))) (ttlMs s)
             \<longrightarrow> requests w < requests w'"
    and fr: "\<not> (cache s = [] \<or> js_gt (Fin (of_int (now w - cacheTimestampMs s))) (ttlMs s))
             \<longrightarrow> w' = w \<and> s' = s"
    using ensureFresh_effect[of net rnd w s] by blast
  have c: "getProtocolsByNames net rnd (before @ raw # after) (w, s)
           = Inr ((w', s'), map (resolve_one (cache s')) before
                              @ resolve_one (cache s') raw
                              # map (resolve_one (cache s')) after)"
    using e by (simp add: getProtocolsByNames_def resolve_loop_map)
  have d: "getProtocolsByNames net rnd (before @ after) (w, s)
           = Inr ((w', s'), map (resolve_one (cache s')) before
                              @ map (resolve_one (cache s')) after)"
    using e by (simp add: getProtocolsByNames_def resolve_loop_map)
  have cd: "\<exists>w' s'.
         ensureFresh net rnd (w, s) = Inr (w', s')
       \<and> (cache s = [] \<or> js_gt (Fin (of_int (now w - cacheTimestampMs s))) (ttlMs s)
             \<longrightarrow> requests w < requests w')
       \<and> (\<not> (cache s = [] \<or> js_gt (Fin (of_int (now w - cacheTimestampMs s))) (ttlMs s))
             \<longrightarrow> w' = w \<and> s' = s)
       \<and> getProtocolsByNames net rnd (before @ raw # after) (w, s)
           = Inr ((w', s'), map (resolve_one (cache s')) before
                              @ resolve_one (cache s') raw
                              # map (resolve_one (cache s')) after)
       \<and> getProtocolsByNames net rnd (before @ after) (w, s)
           = Inr ((w', s'), map (resolve_one (cache s')) before
                              @ map (resolve_one (cache s')) after)"
    by (rule exI[of _ w'], rule exI[of _ s']) (intro conjI e st fr c d)
  show ?thesis
    by (intro conjI) (rule a, rule b, rule cd)
qed

text \<open>
  The amended statement at a blank query and at the query curve against the two Aave
  records, and at the batch of one blank query on an empty cache: the failure entry
  comes back after requests have been sent.
\<close>

theorem blank_and_unmatched_queries_fail_after_freshness_check_witness:
  "resolve_one aave_catalog ''  '' =
      \<lparr> r_id = [], r_success = False, r_data = None, r_error = Some ''Empty protocol name'' \<rparr>
   \<and> resolve_one aave_catalog ''curve'' =
      \<lparr> r_id = ''curve'', r_success = False, r_data = None,
        r_error = Some ''No protocol match for: curve'' \<rparr>
   \<and> (\<exists>w' s'. getProtocolsByNames net_down no_jitter [''  ''] (world0, new_service)
          = Inr ((w', s'),
                 [\<lparr> r_id = [], r_success = False, r_data = None,
                    r_error = Some ''Empty protocol name'' \<rparr>])
        \<and> requests world0 < requests w')"
proof -
  note T = blank_and_unmatched_queries_fail_after_freshness_check
  have ws: "\<forall>c\<in>set ''  ''. is_ws c" by (simp add: is_ws_def)
  have t: "trim ''curve'' = ''curve''" by (simp add: trim_def is_ws_def)
  have l: "toLowerCase ''curve'' = ''curve''" by code_simp
  have r: "\<And>n t. t \<in> set tiers \<Longrightarrow> n \<in> {''Aave'', ''Aave V2''} \<Longrightarrow> \<not> t ''curve'' (only_name n)"
    by (auto simp: tiers_def only_name_def name_exact_def symbol_exact_def slug_exact_def
        slug_lower_def name_prefix_def slug_prefix_def lower_samples lower_nil)
  have no: "\<forall>k<length tiers. \<forall>p\<in>set aave_catalog. \<not> (tiers ! k) ''curve'' p"
  proof (intro allI impI ballI)
    fix k p assume "k < length tiers" "p \<in> set aave_catalog"
    then have "tiers ! k \<in> set tiers" "p = only_name ''Aave'' \<or> p = only_name ''Aave V2''"
      by (simp_all add: aave_catalog_def)
    then show "\<not> (tiers ! k) ''curve'' p" using r by blast
  qed
  have blank: "\<forall>ps. resolve_one ps ''  '' =
      \<lparr> r_id = [], r_success = False, r_data = None, r_error = Some ''Empty protocol name'' \<rparr>"
    using T[where raw="''  ''" and ps=aave_catalog and net=net_down and rnd=no_jitter
               and before="[]" and after="[]" and w=world0 and s=new_service, THEN conjunct1]
      ws by (rule mp)
  then have a: "resolve_one aave_catalog ''  '' =
      \<lparr> r_id = [], r_success = False, r_data = None, r_error = Some ''Empty protocol name'' \<rparr>"
    by (rule spec)
  have pre: "trim ''curve'' \<noteq> [] \<and> (\<forall>k<length tiers. \<forall>p\<in>set aave_catalog.
               \<not> (tiers ! k) (toLowerCase (trim ''curve'')) p)"
    using no by (simp only: t l) simp
  have "resolve_one aave_catalog ''curve'' =
      \<lparr> r_id = trim ''curve'', r_success = False, r_data = None,
        r_error = Some (''No protocol match for: '' @ trim ''curve'') \<rparr>"
    using T[where raw="''curve''" and ps=aave_catalog and net=net_down and rnd=no_jitter
               and before="[]" and after="[]" and w=world0 and s=new_service,
             THEN conjunct2, THEN conjunct1]
      pre by (rule mp)
  then have b: "resolve_one aave_catalog ''curve'' =
      \<lparr> r_id = ''curve'', r_success = False, r_data = None,
        r_error = Some ''No protocol match for: curve'' \<rparr>"
    by (simp add: t)
  from T[where raw="''  ''" and ps=aave_catalog and net=net_down and rnd=no_jitter
               and before="[]" and after="[]" and w=world0 and s=new_service,
             THEN conjunct2, THEN conjunct2]
  obtain w' s' where
    st: "cache new_service = []
           \<or> js_gt (Fin (of_int (now world0 - cacheTimestampMs new_service))) (ttlMs new_service)
         \<longrightarrow> requests world0 < requests w'"
    and g: "getProtocolsByNames net_down no_jitter ([] @ ''  '' # []) (world0, new_service)
           = Inr ((w', s'), map (resolve_one (cache s')) []
                              @ resolve_one (cache s') ''  ''
                              # map (resolve_one (cache s')) [])"
    by blast
  have lt: "requests world0 < requests w'"
    using st by (simp add: new_service_def)
  have "resolve_one (cache s') ''  '' =
      \<lparr> r_id = [], r_success = False, r_data = None, r_error = Some ''Empty protocol name'' \<rparr>"
    using blank by (rule spec)
  with g have g': "getProtocolsByNames net_down no_jitter [''  ''] (world0, new_service)
          = Inr ((w', s'),
                 [\<lparr> r_id = [], r_success = False, r_data = None,
                    r_error = Some ''Empty protocol name'' \<rparr>])"
    by simp
  have c: "\<exists>w' s'. getProtocolsByNames net_down no_jitter [''  ''] (world0, new_service)
          = Inr ((w', s'),
                 [\<lparr> r_id = [], r_success = False, r_data = None,
                    r_error = Some ''Empty protocol name'' \<rparr>])
        \<and> requests world0 < requests w'"
    by (rule exI[of _ w'], rule exI[of _ s']) (intro conjI g' lt)
  show ?thesis
    by (intro conjI) (rule a, rule b, rule c)
qed

subsection \<open>Claim C10: results depend on the trimmed query only\<close>

text \<open>
  C10. The \<open>id\<close> of a result is the trimmed query, and its data is the record picked
  for the trimmed, lowercased query. Padding a query with white space on either side
  does not change its result; a query of white space only is reported with the empty
  string as \<open>id\<close>; two batches whose queries agree after trimming get the same answer.
\<close>

theorem results_depend_on_trimmed_query:
  "r_id (resolve_one ps raw) = trim raw
   \<and> r_data (resolve_one ps raw)
       = (if trim raw = [] then None
          else map_option shapeProtocol (find_picked ps (toLowerCase (trim raw))))
   \<and> ((\<forall>c\<in>set a. is_ws c) \<and> (\<forall>c\<in>set b. is_ws c) \<longrightarrow>
         resolve_one ps (a @ raw @ b) = resolve_one ps raw)
   \<and> ((\<forall>c\<in>set raw. is_ws c) \<longrightarrow> r_id (resolve_one ps raw) = [])
   \<and> (map trim names1 = map trim names2 \<longrightarrow>
         getProtocolsByNames net rnd names1 (w, s) = getProtocolsByNames net rnd names2 (w, s))"
proof -
  have d: "r_data (resolve_one ps raw)
       = (if trim raw = [] then None
          else map_option shapeProtocol (find_picked ps (toLowerCase (trim raw))))"
    by (simp add: resolve_one_def Let_def split: option.splits)
  have p: "(\<forall>c\<in>set a. is_ws c) \<and> (\<forall>c\<in>set b. is_ws c) \<longrightarrow>
         resolve_one ps (a @ raw @ b) = resolve_one ps raw"
  proof
    assume "(\<forall>c\<in>set a. is_ws c) \<and> (\<forall>c\<in>set b. is_ws c)"
    then have "trim (a @ raw @ b) = trim raw" by (simp add: trim_padding)
    then show "resolve_one ps (a @ raw @ b) = resolve_one ps raw" by (rule resolve_one_trim)
  qed
  have e: "(\<forall>c\<in>set raw. is_ws c) \<longrightarrow> r_id (resolve_one ps raw) = []"
    by (simp add: r_id_resolve_one trim_blank)
  have m: "map trim names1 = map trim names2 \<longrightarrow>
         getProtocolsByNames net rnd names1 (w, s) = getProtocolsByNames net rnd names2 (w, s)"
  proof
    assume eq: "map trim names1 = map trim names2"
    have "\<And>c. map (resolve_one c) names1 = map (resolve_one c) names2"
    proof -
      fix c
      have len: "length names1 = length names2"
        using eq by (rule map_eq_imp_length_eq)
      show "map (resolve_one c) names1 = map (resolve_one c) names2"
      proof (rule nth_equalityI)
        show "length (map (resolve_one c) names1) = length (map (resolve_one c) names2)"
          using len by simp
      next
        fix i assume "i < length (map (resolve_one c) names1)"
        then have i: "i < length names1" by simp
        then have "map trim names1 ! i = map trim names2 ! i" by (simp only: eq)
        with i len have "trim (names1 ! i) = trim (names2 ! i)" by simp
        then have "resolve_one c (names1 ! i) = resolve_one c (names2 ! i)"
          by (rule resolve_one_trim)
        with i len show "map (resolve_one c) names1 ! i = map (resolve_one c) names2 ! i"
          by simp
      qed
    qed
    then have "\<And>c. resolve_loop c names1 [] = resolve_loop c names2 []"
      by (simp only: resolve_loop_map)
    then show "getProtocolsByNames net rnd names1 (w, s) = getProtocolsByNames net rnd names2 (w, s)"
      by (simp only: getProtocolsByNames_def)
  qed
  show ?thesis
    by (intro conjI) (rule r_id_resolve_one, rule d, rule p, rule e, rule m)
qed


text \<open>The theorem at the query Aave padded with blanks, and at a query of three blanks.\<close>

theorem results_depend_on_trimmed_query_witness:
  "resolve_one aave_catalog (''  '' @ ''Aave'' @ '' '') = resolve_one aave_catalog ''Aave''
   \<and> r_id (resolve_one aave_catalog ''   '') = []"
proof -
  have ws: "\<forall>c\<in>set ''  ''. is_ws c" "\<forall>c\<in>set '' ''. is_ws c" "\<forall>c\<in>set ''   ''. is_ws c"
    by (simp_all add: is_ws_def)
  have a: "resolve_one aave_catalog (''  '' @ ''Aave'' @ '' '') = resolve_one aave_catalog ''Aave''"
    using results_depend_on_trimmed_query
            [where ps=aave_catalog and raw="''Aave''" and a="''  ''" and b="'' ''"
               and ?names1.0="[]" and ?names2.0="[]" and net=net_up and rnd=no_jitter
               and w=world0 and s=new_service,
             THEN conjunct2, THEN conjunct2, THEN conjunct1]
      conjI[OF ws(1) ws(2)] by (rule mp)
  have b: "r_id (resolve_one aave_catalog ''   '') = []"
    using results_depend_on_trimmed_query
            [where ps=aave_catalog and raw="''   ''" and a="[]" and b="[]"
               and ?names1.0="[]" and ?names2.0="[]" and net=net_up and rnd=no_jitter
               and w=world0 and s=new_service,
             THEN conjunct2, THEN conjunct2, THEN conjunct2, THEN conjunct1]
      ws(3) by (rule mp)
  from a b show ?thesis by (rule conjI)
qed

section \<open>Properties of the wallet action\<close>

subsection \<open>Sorting\<close>

lemma array_sort_Cons: "array_sort cmp (x # xs) = insert_by cmp x (array_sort cmp xs)"
  by (simp add: array_sort_def)

lemma mset_insert_by: "mset (insert_by cmp x ys) = add_mset x (mset ys)"
  by (induction ys) simp_all

lemma mset_array_sort: "mset (array_sort cmp xs) = mset xs"
proof (induction xs)
  case Nil
  show ?case by (simp add: array_sort_def)
next
  case (Cons x xs)
  then show ?case by (simp add: array_sort_Cons mset_insert_by)
qed

lemma set_insert_by: "set (insert_by cmp x ys) = insert x (set ys)"
  by (induction ys) auto

lemma descending_insert:
  fixes key :: "'a \<Rightarrow> rat"
  assumes "sorted_wrt (\<lambda>a b. key b \<le> key a) ys"
  shows "sorted_wrt (\<lambda>a b. key b \<le> key a) (insert_by (\<lambda>a b. key b - key a) x ys)"
  using assms
proof (induction ys)
  case Nil
  show ?case by simp
next
  case (Cons y ys)
  show ?case
  proof (cases "key y \<le> key x")
    case True
    with Cons.prems show ?thesis by (auto intro: order_trans)
  next
    case False
    with Cons show ?thesis by (auto simp: set_insert_by)
  qed
qed

lemma descending_array_sort:
  fixes key :: "'a \<Rightarrow> rat"
  shows "sorted_wrt (\<lambda>a b. key b \<le> key a) (array_sort (\<lambda>a b. key b - key a) xs)"
proof (induction xs)
  case Nil
  show ?case by (simp add: array_sort_def)
next
  case (Cons x xs)
  then show ?case by (simp add: array_sort_Cons descending_insert)
qed

lemma stable_insert:
  fixes key :: "'a \<Rightarrow> rat"
  shows "filter (\<lambda>t. key t = v) (insert_by (\<lambda>a b. key b - key a) x ys)
           = (if key x = v then x # filter (\<lambda>t. key t = v) ys else filter (\<lambda>t. key t = v) ys)"
  by (induction ys) auto

lemma stable_array_sort:
  fixes key :: "'a \<Rightarrow> rat"
  shows "filter (\<lambda>t. key t = v) (array_sort (\<lambda>a b. key b - key a) xs) = filter (\<lambda>t. key t = v) xs"
proof (induction xs)
  case Nil
  show ?case by (simp add: array_sort_def)
next
  case (Cons x xs)
  then show ?case by (simp add: array_sort_Cons stable_insert)
qed

subsection \<open>Summing\<close>

lemma foldl_plus: "foldl (\<lambda>sum token. sum + f token) a xs = a + sum_list (map f xs)"
  for a :: rat
  by (induction xs arbitrary: a) simp_all

lemma totalUsdValue_sum: "totalUsdValue xs = sum_list (map t_usdValue xs)"
  by (simp add: totalUsdValue_def foldl_plus)

subsection \<open>Grouping\<close>

lemma group_token_new:
  assumes "t_chain token \<notin> set ks"
  shows "group_token (map (\<lambda>c. (c, F c)) ks) token
           = map (\<lambda>c. (c, F c)) ks @ [(t_chain token, [token])]"
  using assms by (induction ks) auto

lemma group_token_old:
  assumes "t_chain token \<in> set ks" and "distinct ks"
  shows "group_token (map (\<lambda>c. (c, F c)) ks) token
           = map (\<lambda>c. (c, if c = t_chain token then F c @ [token] else F c)) ks"
  using assms by (induction ks) auto

lemma byChain_snoc: "byChain (ts @ [token]) = group_token (byChain ts) token"
  by (simp add: byChain_def)

lemma byChain_groups:
  "byChain ts = map (\<lambda>c. (c, filter (\<lambda>t. t_chain t = c) ts)) (rev (remdups (rev (map t_chain ts))))"
proof (induction ts rule: rev_induct)
  case Nil
  show ?case by (simp add: byChain_def)
next
  case (snoc token ts)
  let ?ks = "rev (remdups (rev (map t_chain ts)))"
  have ks: "set ?ks = t_chain ` set ts" "distinct ?ks" by simp_all
  show ?case
  proof (cases "t_chain token \<in> t_chain ` set ts")
    case True
    then have "t_chain token \<in> set ?ks" using ks(1) by simp
    from group_token_old[OF this ks(2), of "\<lambda>c. filter (\<lambda>t. t_chain t = c) ts"] snoc True
    show ?thesis by (simp add: byChain_snoc)
  next
    case False
    then have n: "t_chain token \<notin> set ?ks" using ks(1) by simp
    have e: "filter (\<lambda>t. t_chain t = t_chain token) ts = []"
      using False by (auto simp: filter_empty_conv image_iff)
    have m: "map (\<lambda>c. (c, filter (\<lambda>t. t_chain t = c) ts)) ?ks
           = map (\<lambda>c. (c, filter (\<lambda>t. t_chain t = c) (ts @ [token]))) ?ks"
      using n by (intro map_cong refl) auto
    from group_token_new[OF n, of "\<lambda>c. filter (\<lambda>t. t_chain t = c) ts"] snoc False e m
    show ?thesis by (simp add: byChain_snoc)
  qed
qed


subsection \<open>Chains never reject\<close>

lemma fetchChainBalances_resolves:
  "\<exists>balances. fetchChainBalances env toFixed net chain = Inr balances"
  by (simp add: fetchChainBalances_def Let_def split: sum.splits)

lemma all_chains_resolve:
  "\<exists>b e p. fetchChainBalances env toFixed net Base = Inr b
     \<and> fetchChainBalances env toFixed net Ethereum = Inr e
     \<and> fetchChainBalances env toFixed net Polygon = Inr p
     \<and> promise_all (map (\<lambda>chain. fetchChainBalances env toFixed net chain) supported_chains) = Inr [b, e, p]"
proof -
  obtain b e p where
    "fetchChainBalances env toFixed net Base = Inr b"
    "fetchChainBalances env toFixed net Ethereum = Inr e"
    "fetchChainBalances env toFixed net Polygon = Inr p"
    using fetchChainBalances_resolves by meson
  then show ?thesis by (simp add: supported_chains_def)
qed

lemma handler_portfolio:
  assumes "promise_all (map (\<lambda>chain. fetchChainBalances env toFixed net chain) supported_chains) = Inr arrays"
  shows "handler env toFixed net (Wallet_found address) =
     \<lparr> ar_text =
         Portfolio_text address (totalUsdValue (concat arrays))
           (if sort_balances (concat arrays) = [] then No_tokens_found
            else Assets (length (sort_balances (concat arrays)))
                   (byChain (sort_balances (concat arrays)))),
       ar_success = True,
       ar_data =
         Portfolio \<lparr> d_address = address, d_totalBalance = totalUsdValue (concat arrays),
                     d_totalBalanceUsd = CHR ''$'' # toFixed 2 (totalUsdValue (concat arrays)),
                     d_tokenCount = length (sort_balances (concat arrays)),
                     d_tokens = map token_view (sort_balances (concat arrays)) \<rparr> \<rparr>"
  using assms by (simp add: handler_def Let_def)

lemma length_sort_balances: "length (sort_balances xs) = length xs"
  using mset_array_sort[of "\<lambda>a b. t_usdValue b - t_usdValue a" xs]
  by (simp add: sort_balances_def) (metis size_mset)

subsection \<open>Claim C7: flatten, sum, stable descending sort, group by chain\<close>

text \<open>
  C7. The handler always gets the three per-chain arrays; with \<open>arrays\<close> those arrays
  in chain order, the result is a success whose total is the sum of the \<open>usdValue\<close> of
  every token of the flattened arrays, whose token count is their number, and whose
  tokens are the flattened tokens reordered (\<open>ranked\<close>): the same tokens, in descending
  order of \<open>usdValue\<close>, tokens of equal value in the order they had in the flattened
  list. The groups shown are one per chain, in the order in which the chains first
  occur in \<open>ranked\<close>, each holding that chain's tokens in the order of \<open>ranked\<close>.
\<close>

theorem portfolio_is_flattened_summed_sorted_grouped:
  "\<exists>arrays ranked.
      promise_all (map (\<lambda>chain. fetchChainBalances env toFixed net chain) supported_chains) = Inr arrays
    \<and> ranked = sort_balances (concat arrays)
    \<and> handler env toFixed net (Wallet_found address) =
        \<lparr> ar_text =
            Portfolio_text address (sum_list (map t_usdValue (concat arrays)))
              (if ranked = [] then No_tokens_found
               else Assets (length ranked) (byChain ranked)),
          ar_success = True,
          ar_data =
            Portfolio \<lparr> d_address = address,
                        d_totalBalance = sum_list (map t_usdValue (concat arrays)),
                        d_totalBalanceUsd =
                          CHR ''$'' # toFixed 2 (sum_list (map t_usdValue (concat arrays))),
                        d_tokenCount = length (concat arrays),
                        d_tokens = map token_view ranked \<rparr> \<rparr>
    \<and> mset ranked = mset (concat arrays)
    \<and> sorted_wrt (\<lambda>a b. t_usdValue b \<le> t_usdValue a) ranked
    \<and> (\<forall>v. filter (\<lambda>t. t_usdValue t = v) ranked = filter (\<lambda>t. t_usdValue t = v) (concat arrays))
    \<and> byChain ranked =
        map (\<lambda>c. (c, filter (\<lambda>t. t_chain t = c) ranked)) (rev (remdups (rev (map t_chain ranked))))"
proof -
  obtain arrays where
    a: "promise_all (map (\<lambda>chain. fetchChainBalances env toFixed net chain) supported_chains) = Inr arrays"
    using all_chains_resolve by blast
  let ?ranked = "sort_balances (concat arrays)"
  have h: "handler env toFixed net (Wallet_found address) =
        \<lparr> ar_text =
            Portfolio_text address (sum_list (map t_usdValue (concat arrays)))
              (if ?ranked = [] then No_tokens_found
               else Assets (length ?ranked) (byChain ?ranked)),
          ar_success = True,
          ar_data =
            Portfolio \<lparr> d_address = address,
                        d_totalBalance = sum_list (map t_usdValue (concat arrays)),
                        d_totalBalanceUsd =
                          CHR ''$'' # toFixed 2 (sum_list (map t_usdValue (concat arrays))),
                        d_tokenCount = length (concat arrays),
                        d_tokens = map token_view ?ranked \<rparr> \<rparr>"
    by (simp only: handler_portfolio[OF a] totalUsdValue_sum length_sort_balances)
  have m: "mset ?ranked = mset (concat arrays)"
    by (simp add: sort_balances_def mset_array_sort)
  have s: "sorted_wrt (\<lambda>a b. t_usdValue b \<le> t_usdValue a) ?ranked"
    unfolding sort_balances_def by (rule descending_array_sort)
  have st: "\<forall>v. filter (\<lambda>t. t_usdValue t = v) ?ranked
                 = filter (\<lambda>t. t_usdValue t = v) (concat arrays)"
    unfolding sort_balances_def by (rule allI) (rule stable_array_sort)
  have g: "byChain ?ranked =
        map (\<lambda>c. (c, filter (\<lambda>t. t_chain t = c) ?ranked)) (rev (remdups (rev (map t_chain ?ranked))))"
    by (rule byChain_groups)
  show ?thesis
    by (rule exI[of _ arrays], rule exI[of _ ?ranked]) (intro conjI a refl h m s st g)
qed

lemma native_samples:
  "fetchChainBalances full_env plain native_net Base = Inr [native_token Base 5]"
  "fetchChainBalances full_env plain native_net Ethereum = Inr [native_token Ethereum 7]"
  "fetchChainBalances full_env plain native_net Polygon = Inr [native_token Polygon 7]"
  by (simp_all add: fetchChainBalances_def chain_try_def full_env_def native_net_def
        native_only_def is_set_def formatUnits_def plain_def native_price_def rat_or_def
        native_token_def Let_def)

lemma native_ranked:
  "sort_balances [native_token Base 5, native_token Ethereum 7, native_token Polygon 7]
     = [native_token Ethereum 7, native_token Polygon 7, native_token Base 5]"
  by (simp add: sort_balances_def array_sort_def native_token_def)

lemma native_groups:
  "byChain [native_token Ethereum 7, native_token Polygon 7, native_token Base 5]
     = [(Ethereum, [native_token Ethereum 7]), (Polygon, [native_token Polygon 7]),
        (Base, [native_token Base 5])]"
  by (simp add: byChain_def native_token_def)

text \<open>
  The theorem at a wallet with native tokens worth 5 on Base, 7 on Ethereum and 7 on
  Polygon. The flattened order is Base, Ethereum, Polygon; the ranked order is
  Ethereum, Polygon (equal values, original order kept), Base; the groups follow the
  ranked order; the total is 19 and the count 3.
\<close>

theorem portfolio_is_flattened_summed_sorted_grouped_witness:
  "handler full_env plain native_net (Wallet_found ''0x1234'') =
     \<lparr> ar_text =
         Portfolio_text ''0x1234'' 19
           (Assets 3 [(Ethereum, [native_token Ethereum 7]), (Polygon, [native_token Polygon 7]),
                      (Base, [native_token Base 5])]),
       ar_success = True,
       ar_data =
         Portfolio \<lparr> d_address = ''0x1234'', d_totalBalance = 19, d_totalBalanceUsd = ''$'',
                     d_tokenCount = 3,
                     d_tokens = map token_view [native_token Ethereum 7, native_token Polygon 7,
                                                native_token Base 5] \<rparr> \<rparr>"
proof -
  from portfolio_is_flattened_summed_sorted_grouped
         [of full_env plain native_net "''0x1234''"]
  obtain arrays ranked where
    a: "promise_all (map (\<lambda>chain. fetchChainBalances full_env plain native_net chain)
                       supported_chains) = Inr arrays"
    and r: "ranked = sort_balances (concat arrays)"
    and h: "handler full_env plain native_net (Wallet_found ''0x1234'') =
        \<lparr> ar_text =
            Portfolio_text ''0x1234'' (sum_list (map t_usdValue (concat arrays)))
              (if ranked = [] then No_tokens_found
               else Assets (length ranked) (byChain ranked)),
          ar_success = True,
          ar_data =
            Portfolio \<lparr> d_address = ''0x1234'',
                        d_totalBalance = sum_list (map t_usdValue (concat arrays)),
                        d_totalBalanceUsd =
                          CHR ''$'' # plain 2 (sum_list (map t_usdValue (concat arrays))),
                        d_tokenCount = length (concat arrays),
                        d_tokens = map token_view ranked \<rparr> \<rparr>"
    by blast
  from a have arrays:
    "arrays = [[native_token Base 5], [native_token Ethereum 7], [native_token Polygon 7]]"
    by (simp add: supported_chains_def native_samples)
  with r have ranked:
    "ranked = [native_token Ethereum 7, native_token Polygon 7, native_token Base 5]"
    by (simp add: native_ranked)
  have t: "sum_list (map t_usdValue (concat arrays)) = 19"
    by (simp add: arrays native_token_def)
  show ?thesis
    by (simp only: h t ranked native_groups) (simp add: arrays plain_def)
qed


subsection \<open>Claim C3: a failing chain is left out, the others are aggregated\<close>






lemma upper_samples: "toUpperCase ''usdc'' = ''USDC''" "toUpperCase ''dai'' = ''DAI''"
  by code_simp+




subsection \<open>Claim C6: pricing API first, contract metadata second, otherwise skip the token\<close>

lemma getTokenInfo_ignores_tokens_reply:
  "getTokenInfo env (net\<lparr> tokens_reply := x \<rparr>) a c = getTokenInfo env net a c"
  by (simp add: getTokenInfo_def cong: option.case_cong)

lemma process_tokens_ignores_tokens_reply:
  "process_tokens env toFixed (net\<lparr> tokens_reply := x \<rparr>) c es bs
     = process_tokens env toFixed net c es bs"
  by (induction env toFixed net c es bs rule: process_tokens.induct)
     (simp_all add: getTokenInfo_ignores_tokens_reply Let_def split: option.splits)

lemma process_tokens_skips:
  assumes "getTokenInfo env net (e_contractAddress e) c = None"
  shows "process_tokens env toFixed net c (before @ Some e # after) bs
           = process_tokens env toFixed net c (before @ after) bs"
proof (induction before arbitrary: bs)
  case Nil
  show ?case using assms by (simp split: option.splits)
next
  case (Cons x before)
  show ?case
  proof (cases x)
    case None
    then show ?thesis by simp
  next
    case (Some y)
    then show ?thesis using Cons.IH by (simp add: Let_def split: option.splits)
  qed
qed

text \<open>
  C6. For a contract address \<open>a\<close> on chain \<open>c\<close>: when the API key is configured and the
  pricing API answers with a success status and an object, \<open>getTokenInfo\<close> returns
  what that object gives (symbol in upper case, name, decimals, price), without using
  the contract. When the key is missing, or the request is rejected (which includes
  the timeout), or the status is not a success, or the body does not parse or is
  null, \<open>getTokenInfo\<close> returns the contract's symbol, name and decimals with price 0
  if the three reads succeed, and nothing if they are rejected. When it returns
  nothing for a token, the loop over the token balances gives what it gives without
  that token, and so does \<open>fetchChainBalances\<close> for the chain: only that token is
  skipped.
\<close>

theorem price_resolution_with_fallback:
  "(is_set (env ''COINGECKO_API_KEY'') \<and> api_reply net a = ApiResponse True (ApiData d) \<longrightarrow>
      getTokenInfo env net a c =
        Some \<lparr> i_symbol = toUpperCase (str_or (cg_symbol d) []),
               i_name = str_or (cg_name d) ''Unknown Token'',
               i_decimals = nat_or (cg_decimal_place d (cfg_coingeckoPlatform (CHAIN_CONFIGS c))) 18,
               i_price = rat_or (cg_usd d) 0 \<rparr>)
   \<and> (\<not> is_set (env ''COINGECKO_API_KEY'')
        \<or> (\<exists>msg. api_reply net a = ApiRejected msg)
        \<or> (\<exists>b. api_reply net a = ApiResponse False b)
        \<or> (\<exists>msg. api_reply net a = ApiResponse True (ApiBadJson msg))
        \<or> api_reply net a = ApiResponse True ApiNull \<longrightarrow>
      getTokenInfo env net a c =
        (case onchain_reply net a of
           ReadOk symbol name decimals \<Rightarrow>
             Some \<lparr> i_symbol = toUpperCase (if symbol = [] then ''UNKNOWN'' else symbol),
                    i_name = (if name = [] then ''Unknown Token'' else name),
                    i_decimals = (if decimals = 0 then 18 else decimals),
                    i_price = 0 \<rparr>
         | ReadRejected msg \<Rightarrow> None))
   \<and> (getTokenInfo env net (e_contractAddress e) c = None \<longrightarrow>
        process_tokens env toFixed net c (before @ Some e # after) bs
          = process_tokens env toFixed net c (before @ after) bs)
   \<and> (getTokenInfo env (nets c) (e_contractAddress e) c = None
        \<and> tokens_reply (nets c) = TokResponse ok status (TokJson err (Entries (before @ Some e # after))) \<longrightarrow>
        fetchChainBalances env toFixed nets c
          = fetchChainBalances env toFixed
              (nets(c := (nets c)\<lparr> tokens_reply :=
                  TokResponse ok status (TokJson err (Entries (before @ after))) \<rparr>)) c)"
proof -
  have 1: "is_set (env ''COINGECKO_API_KEY'') \<and> api_reply net a = ApiResponse True (ApiData d) \<longrightarrow>
      getTokenInfo env net a c =
        Some \<lparr> i_symbol = toUpperCase (str_or (cg_symbol d) []),
               i_name = str_or (cg_name d) ''Unknown Token'',
               i_decimals = nat_or (cg_decimal_place d (cfg_coingeckoPlatform (CHAIN_CONFIGS c))) 18,
               i_price = rat_or (cg_usd d) 0 \<rparr>"
    by (simp add: getTokenInfo_def from_coingecko_def Let_def)
  have 2: "\<not> is_set (env ''COINGECKO_API_KEY'')
        \<or> (\<exists>msg. api_reply net a = ApiRejected msg)
        \<or> (\<exists>b. api_reply net a = ApiResponse False b)
        \<or> (\<exists>msg. api_reply net a = ApiResponse True (ApiBadJson msg))
        \<or> api_reply net a = ApiResponse True ApiNull \<longrightarrow>
      getTokenInfo env net a c =
        (case onchain_reply net a of
           ReadOk symbol name decimals \<Rightarrow>
             Some \<lparr> i_symbol = toUpperCase (if symbol = [] then ''UNKNOWN'' else symbol),
                    i_name = (if name = [] then ''Unknown Token'' else name),
                    i_decimals = (if decimals = 0 then 18 else decimals),
                    i_price = 0 \<rparr>
         | ReadRejected msg \<Rightarrow> None)"
    by (auto simp: getTokenInfo_def from_coingecko_def from_contract_def str_or_def nat_or_def
          Let_def split: onchain_reply.splits)
  have 3: "getTokenInfo env net (e_contractAddress e) c = None \<longrightarrow>
        process_tokens env toFixed net c (before @ Some e # after) bs
          = process_tokens env toFixed net c (before @ after) bs"
    by (simp add: process_tokens_skips)
  have 4: "getTokenInfo env (nets c) (e_contractAddress e) c = None
        \<and> tokens_reply (nets c) = TokResponse ok status (TokJson err (Entries (before @ Some e # after))) \<longrightarrow>
        fetchChainBalances env toFixed nets c
          = fetchChainBalances env toFixed
              (nets(c := (nets c)\<lparr> tokens_reply :=
                  TokResponse ok status (TokJson err (Entries (before @ after))) \<rparr>)) c"
    by (auto simp: fetchChainBalances_def chain_try_def Let_def process_tokens_ignores_tokens_reply
          process_tokens_skips split: native_reply.splits native_result.splits)
  show ?thesis by (intro conjI) (rule 1, rule 2, rule 3, rule 4)
qed

text \<open>
  The theorem at three networks: the pricing API answers; only the contract reads
  work; nothing works.
\<close>

theorem price_resolution_with_fallback_witness:
  "getTokenInfo sample_env base_up ''0xA0'' Base =
      Some \<lparr> i_symbol = ''USDC'', i_name = ''USD Coin'', i_decimals = 6, i_price = 1 \<rparr>
   \<and> getTokenInfo sample_env contract_only ''0xA0'' Base =
      Some \<lparr> i_symbol = ''DAI'', i_name = ''Dai Stablecoin'', i_decimals = 18, i_price = 0 \<rparr>
   \<and> getTokenInfo sample_env down ''0xA0'' Base = None"
proof -
  note T = price_resolution_with_fallback
  have k: "is_set (sample_env ''COINGECKO_API_KEY'')"
    by (simp add: sample_env_def is_set_def)
  have "is_set (sample_env ''COINGECKO_API_KEY'')
        \<and> api_reply base_up ''0xA0'' = ApiResponse True (ApiData usdc)"
    using k by (simp add: base_up_def)
  with T[where env=sample_env and net=base_up and a="''0xA0''" and d=usdc and c=Base,
         THEN conjunct1]
  have "getTokenInfo sample_env base_up ''0xA0'' Base =
        Some \<lparr> i_symbol = toUpperCase (str_or (cg_symbol usdc) []),
               i_name = str_or (cg_name usdc) ''Unknown Token'',
               i_decimals = nat_or (cg_decimal_place usdc (cfg_coingeckoPlatform (CHAIN_CONFIGS Base))) 18,
               i_price = rat_or (cg_usd usdc) 0 \<rparr>"
    by (rule mp)
  then have a: "getTokenInfo sample_env base_up ''0xA0'' Base =
      Some \<lparr> i_symbol = ''USDC'', i_name = ''USD Coin'', i_decimals = 6, i_price = 1 \<rparr>"
    by (simp add: usdc_def str_or_def nat_or_def rat_or_def upper_samples)
  have r: "\<exists>msg. api_reply contract_only ''0xA0'' = ApiRejected msg"
       "\<exists>msg. api_reply down ''0xA0'' = ApiRejected msg"
    by (simp_all add: contract_only_def down_def)
  from T[where env=sample_env and net=contract_only and a="''0xA0''" and c=Base,
         THEN conjunct2, THEN conjunct1] r(1)
  have b: "getTokenInfo sample_env contract_only ''0xA0'' Base =
      Some \<lparr> i_symbol = ''DAI'', i_name = ''Dai Stablecoin'', i_decimals = 18, i_price = 0 \<rparr>"
    by (simp add: contract_only_def down_def upper_samples)
  from T[where env=sample_env and net=down and a="''0xA0''" and c=Base,
         THEN conjunct2, THEN conjunct1] r(2)
  have c: "getTokenInfo sample_env down ''0xA0'' Base = None"
    by (simp add: down_def)
  from a b c show ?thesis by simp
qed


end
